theory Spec2Isabelle
  imports Main
begin

section \<open>Values, columns and tables\<close>

text \<open>
  The repository is one module, \<^verbatim>\<open>database/models.py\<close>: six SQLAlchemy declarative
  classes over a common abstract base, and the script \<^verbatim>\<open>recreate_database\<close> that drops,
  recreates and seeds the tables. A class body is a list of \<^verbatim>\<open>Column(...)\<close> calls, so a
  class is modelled by the list of its columns, a column by a record of the keyword
  arguments the module uses, and a stored row by the list of its cells in column order.
\<close>

datatype sqltype = Integer | String | TIMESTAMP | SmallInteger | BigInteger | Text

text \<open>
  A cell is SQL \<^verbatim>\<open>NULL\<close>, an integer, a string (the bytes of its UTF-8 encoding) or a
  timestamp. A timestamp is a reading of the process clock \<^verbatim>\<open>datetime.datetime.now()\<close>,
  counted in microseconds, the resolution both of Python's \<^verbatim>\<open>datetime\<close> and of its
  \<^verbatim>\<open>str\<close>, so that writing a reading into the DDL as a string loses nothing.
\<close>

datatype val = Null | IntV int | StrV string | TimeV int

record column =
  col_name :: string
  col_type :: sqltype
  col_nullable :: bool
  col_unique :: bool
  col_primary_key :: bool
  col_autoincrement :: bool
  col_server_default :: "val option"
  col_default :: "val option"
  col_onupdate :: bool
  col_foreign_key :: "(string \<times> string) option"

text \<open>
  \<^verbatim>\<open>Column(type)\<close> with no keyword argument: nullable, not unique, no key, no default.
  \<open>col_onupdate\<close> stands for \<^verbatim>\<open>onupdate=datetime.datetime.now\<close>, the only callable the
  module passes; \<open>col_default\<close> is the Python-side scalar \<^verbatim>\<open>default=\<close>.
\<close>

definition Column :: "string \<Rightarrow> sqltype \<Rightarrow> column" where
  "Column n ty =
     \<lparr>col_name = n, col_type = ty, col_nullable = True, col_unique = False,
      col_primary_key = False, col_autoincrement = False, col_server_default = None,
      col_default = None, col_onupdate = False, col_foreign_key = None\<rparr>"

text \<open>
  The class body of \<^verbatim>\<open>BaseModel\<close> calls \<^verbatim>\<open>datetime.datetime.now()\<close> twice while the module
  is imported (lines 36 and 43) and passes the two readings, as strings, for
  \<^verbatim>\<open>server_default\<close>. The two readings are the only input of the schema.
\<close>

record load_clock =
  created_now :: int
  updated_now :: int

definition BaseModel :: "load_clock \<Rightarrow> column list" where
  "BaseModel lt =
     [(Column ''id'' Integer)
        \<lparr>col_nullable := False, col_unique := True, col_primary_key := True,
         col_autoincrement := True\<rparr>,
      (Column ''created_at'' TIMESTAMP)
        \<lparr>col_nullable := False, col_server_default := Some (TimeV (created_now lt))\<rparr>,
      (Column ''updated_at'' TIMESTAMP)
        \<lparr>col_nullable := False, col_server_default := Some (TimeV (updated_now lt)),
         col_onupdate := True\<rparr>]"

definition Reception :: "load_clock \<Rightarrow> column list" where
  "Reception lt = BaseModel lt @
     [(Column ''apply'' Integer)\<lparr>col_nullable := False, col_default := Some (IntV 1)\<rparr>,
      (Column ''about_courses'' BigInteger)\<lparr>col_nullable := False, col_default := Some (IntV 1)\<rparr>,
      (Column ''about_company'' Integer)\<lparr>col_nullable := False, col_default := Some (IntV 1)\<rparr>,
      (Column ''vacancies'' BigInteger)\<lparr>col_nullable := False, col_default := Some (IntV 1)\<rparr>,
      (Column ''news'' Integer)\<lparr>col_nullable := False, col_default := Some (IntV 1)\<rparr>]"

definition Department :: "load_clock \<Rightarrow> column list" where
  "Department lt = BaseModel lt @
     [(Column ''department_name'' String)\<lparr>col_nullable := False, col_unique := True\<rparr>]"

definition Customer :: "load_clock \<Rightarrow> column list" where
  "Customer lt = BaseModel lt @
     [(Column ''chat_id'' Integer)\<lparr>col_nullable := False\<rparr>,
      (Column ''first_name'' String)\<lparr>col_nullable := False\<rparr>,
      (Column ''last_name'' String)\<lparr>col_nullable := True\<rparr>,
      (Column ''phone'' BigInteger)\<lparr>col_nullable := True\<rparr>,
      (Column ''time'' SmallInteger)\<lparr>col_nullable := True\<rparr>,
      (Column ''department_name'' String)
        \<lparr>col_foreign_key := Some (''department'', ''department_name'')\<rparr>]"

definition Course :: "load_clock \<Rightarrow> column list" where
  "Course lt = BaseModel lt @
     [(Column ''department_id'' Integer)\<lparr>col_foreign_key := Some (''department'', ''id'')\<rparr>,
      (Column ''department_info'' Text)\<lparr>col_nullable := False\<rparr>]"

definition Vacancy :: "load_clock \<Rightarrow> column list" where
  "Vacancy lt = BaseModel lt @
     [(Column ''vacancy_type'' SmallInteger)\<lparr>col_nullable := False\<rparr>,
      (Column ''department_id'' Integer)\<lparr>col_foreign_key := Some (''department'', ''id'')\<rparr>,
      (Column ''vacancy_label'' String)\<lparr>col_nullable := False\<rparr>,
      (Column ''vacancy_info'' Text)\<lparr>col_nullable := False\<rparr>]"

definition News :: "load_clock \<Rightarrow> column list" where
  "News lt = BaseModel lt @
     [(Column ''department_id'' Integer)\<lparr>col_foreign_key := Some (''department'', ''id'')\<rparr>,
      (Column ''news_source'' String)\<lparr>col_nullable := False\<rparr>,
      (Column ''news_label'' String)\<lparr>col_nullable := False\<rparr>]"

text \<open>\<^verbatim>\<open>Base.metadata\<close>: the tables by \<^verbatim>\<open>__tablename__\<close>, in the order of the class statements.\<close>

definition metadata :: "load_clock \<Rightarrow> (string \<times> column list) list" where
  "metadata lt =
     [(''reception'', Reception lt), (''department'', Department lt),
      (''customer'', Customer lt), (''course'', Course lt),
      (''vacancy'', Vacancy lt), (''news'', News lt)]"

section \<open>The data store\<close>

text \<open>
  Modelled from the spec: the storage engine behind \<^verbatim>\<open>database.settings.engine\<close>, which is
  imported by the module and is not among the sources. The spec has it enforce the
  declared constraints ("constraint violations - duplicate unique key (department name),
  foreign-key mismatch - must propagate to the caller as a distinct storage-constraint
  error", "referential integrity is enforced by the foreign key only") and generate
  identities ("inserting a row without supplying id yields a unique, previously-unused
  identity value", "assigned once and never reused"). The engine below is generic: it
  reads every constraint it enforces from the columns a table was created with, so which
  statement fails is decided by the declarations of \<^verbatim>\<open>models.py\<close>.

  A table keeps the columns of its \<^verbatim>\<open>CREATE TABLE\<close>, its rows in insertion order, and the
  next value of its identity generator, which stays above every identity the table has
  held. Integer widths are not checked (they differ between engines).
\<close>

type_synonym row = "(string \<times> val) list"

record table =
  tbl_columns :: "column list"
  tbl_rows :: "row list"
  tbl_next_id :: int

type_synonym database = "string \<Rightarrow> table option"

datatype violation =
  NotNullViolation string | UniqueViolation string | ForeignKeyViolation string

text \<open>
  The exceptions of SQLAlchemy that the model raises: a statement naming an unknown
  column or class, a table or column the store does not have, a value of the wrong
  type, violated constraints (the engine names one; the model lists all that the row
  violates), and a store that cannot be reached.
\<close>

datatype error =
  CompileError | ProgrammingError | DataError | IntegrityError "violation list"
  | OperationalError

definition cell :: "row \<Rightarrow> string \<Rightarrow> val" where
  "cell r c = (case map_of r c of Some v \<Rightarrow> v | None \<Rightarrow> Null)"

definition column_values :: "row list \<Rightarrow> string \<Rightarrow> val list" where
  "column_values rs c = map (\<lambda>r. cell r c) rs"

fun fits :: "sqltype \<Rightarrow> val \<Rightarrow> bool" where
  "fits _ Null = True"
| "fits Integer (IntV _) = True"
| "fits SmallInteger (IntV _) = True"
| "fits BigInteger (IntV _) = True"
| "fits String (StrV _) = True"
| "fits Text (StrV _) = True"
| "fits TIMESTAMP (TimeV _) = True"
| "fits _ _ = False"

text \<open>
  What \<^verbatim>\<open>CREATE TABLE\<close> keeps of a column: everything but the two Python-side settings,
  which SQLAlchemy applies itself when it builds a statement.
\<close>

definition ddl :: "column \<Rightarrow> column" where
  "ddl c = c\<lparr>col_default := None, col_onupdate := False\<rparr>"

definition create_table :: "column list \<Rightarrow> table" where
  "create_table cs = \<lparr>tbl_columns = map ddl cs, tbl_rows = [], tbl_next_id = 1\<rparr>"

text \<open>\<^verbatim>\<open>Base.metadata.drop_all\<close> and \<^verbatim>\<open>create_all\<close>: the tables of the metadata, by name;
  \<^verbatim>\<open>create_all\<close> leaves a table that exists as it is.\<close>

definition drop_all :: "(string \<times> column list) list \<Rightarrow> database \<Rightarrow> database" where
  "drop_all meta db = (\<lambda>tn. if tn \<in> set (map fst meta) then None else db tn)"

definition create_all :: "(string \<times> column list) list \<Rightarrow> database \<Rightarrow> database" where
  "create_all meta db =
     (\<lambda>tn. case db tn of
              Some t \<Rightarrow> Some t
            | None \<Rightarrow> map_option create_table (map_of meta tn))"

definition query :: "database \<Rightarrow> string \<Rightarrow> error + row list" where
  "query db tn = (case db tn of None \<Rightarrow> Inl ProgrammingError | Some t \<Rightarrow> Inr (tbl_rows t))"

subsection \<open>INSERT\<close>

text \<open>
  Modelled from the spec: what the store does with an INSERT. The value it writes for
  a column is the statement's, else the column's server default, else the next
  identity for the auto-incremented key, else \<^verbatim>\<open>NULL\<close>.
\<close>

definition stored_value :: "int \<Rightarrow> row \<Rightarrow> column \<Rightarrow> val" where
  "stored_value next params c =
     (case map_of params (col_name c) of
        Some v \<Rightarrow> v
      | None \<Rightarrow>
          (case col_server_default c of
             Some d \<Rightarrow> d
           | None \<Rightarrow> if col_primary_key c \<and> col_autoincrement c then IntV next else Null))"

definition not_null_violations :: "column list \<Rightarrow> row \<Rightarrow> violation list" where
  "not_null_violations cs r =
     [NotNullViolation (col_name c). c \<leftarrow> cs, \<not> col_nullable c, cell r (col_name c) = Null]"

definition unique_violations :: "column list \<Rightarrow> row list \<Rightarrow> row \<Rightarrow> violation list" where
  "unique_violations cs rs r =
     [UniqueViolation (col_name c). c \<leftarrow> cs, col_unique c \<or> col_primary_key c,
        cell r (col_name c) \<noteq> Null,
        cell r (col_name c) \<in> set (column_values rs (col_name c))]"

definition referenced :: "database \<Rightarrow> string \<times> string \<Rightarrow> val \<Rightarrow> bool" where
  "referenced db fk v =
     (case db (fst fk) of
        None \<Rightarrow> False
      | Some t \<Rightarrow> v \<in> set (column_values (tbl_rows t) (snd fk)))"

definition dangling :: "database \<Rightarrow> column \<Rightarrow> row \<Rightarrow> bool" where
  "dangling db c r =
     (case col_foreign_key c of
        None \<Rightarrow> False
      | Some fk \<Rightarrow> cell r (col_name c) \<noteq> Null \<and> \<not> referenced db fk (cell r (col_name c)))"

definition foreign_key_violations :: "database \<Rightarrow> column list \<Rightarrow> row \<Rightarrow> violation list" where
  "foreign_key_violations db cs r =
     [ForeignKeyViolation (col_name c). c \<leftarrow> cs, dangling db c r]"

definition violations :: "database \<Rightarrow> column list \<Rightarrow> row list \<Rightarrow> row \<Rightarrow> violation list" where
  "violations db cs rs r =
     not_null_violations cs r @ unique_violations cs rs r @ foreign_key_violations db cs r"

definition well_typed :: "column list \<Rightarrow> row \<Rightarrow> bool" where
  "well_typed cs r = list_all (\<lambda>c. fits (col_type c) (cell r (col_name c))) cs"

text \<open>
  Modelled from the spec: the identity generator of the store. Its next value moves
  past every identity written into the auto-incremented key, whether generated or
  supplied, so that it "yields a unique, previously-unused identity value".
\<close>

definition advance :: "column list \<Rightarrow> int \<Rightarrow> row \<Rightarrow> int" where
  "advance cs next r =
     (case filter (\<lambda>c. col_primary_key c \<and> col_autoincrement c) cs of
        [] \<Rightarrow> next
      | c # _ \<Rightarrow> (case cell r (col_name c) of IntV k \<Rightarrow> max next (k + 1) | _ \<Rightarrow> next))"

definition new_row :: "table \<Rightarrow> row \<Rightarrow> row" where
  "new_row t params =
     map (\<lambda>c. (col_name c, stored_value (tbl_next_id t) params c)) (tbl_columns t)"

definition insert_row :: "database \<Rightarrow> string \<Rightarrow> row \<Rightarrow> error + database" where
  "insert_row db tn params =
     (case db tn of
        None \<Rightarrow> Inl ProgrammingError
      | Some t \<Rightarrow>
          if \<not> set (map fst params) \<subseteq> set (map col_name (tbl_columns t))
          then Inl ProgrammingError
          else if \<not> well_typed (tbl_columns t) (new_row t params) then Inl DataError
          else if violations db (tbl_columns t) (tbl_rows t) (new_row t params) \<noteq> []
          then Inl (IntegrityError
                 (violations db (tbl_columns t) (tbl_rows t) (new_row t params)))
          else Inr (db(tn \<mapsto> t
                 \<lparr>tbl_rows := tbl_rows t @ [new_row t params],
                  tbl_next_id :=
                    advance (tbl_columns t) (tbl_next_id t) (new_row t params)\<rparr>)))"

text \<open>
  The statement SQLAlchemy builds for \<^verbatim>\<open>insert(cls).values(vals)\<close>, or for an object of
  \<^verbatim>\<open>cls\<close> added to the session: \<^verbatim>\<open>vals\<close> must name columns of the class, and a column with
  a Python-side default that \<^verbatim>\<open>vals\<close> leaves out is sent with that default. No default of
  the module reads the clock on insertion, so the statement does not depend on when
  it is executed.
\<close>

definition python_defaults :: "column list \<Rightarrow> row \<Rightarrow> row" where
  "python_defaults cs vals =
     concat (map (\<lambda>c. case col_default c of
                         Some d \<Rightarrow> if col_name c \<in> set (map fst vals) then []
                                   else [(col_name c, d)]
                       | None \<Rightarrow> []) cs)"

definition insert_stmt :: "load_clock \<Rightarrow> database \<Rightarrow> string \<Rightarrow> row \<Rightarrow> error + database" where
  "insert_stmt lt db tn vals =
     (case map_of (metadata lt) tn of
        None \<Rightarrow> Inl CompileError
      | Some cs \<Rightarrow>
          if \<not> set (map fst vals) \<subseteq> set (map col_name cs) then Inl CompileError
          else insert_row db tn (vals @ python_defaults cs vals))"

subsection \<open>UPDATE\<close>

text \<open>
  \<^verbatim>\<open>update(cls).where(cls.id == rid).values(assigns)\<close>, which is also what the session
  flushes for a changed object. SQLAlchemy adds, for every column declared with
  \<^verbatim>\<open>onupdate\<close> that \<^verbatim>\<open>assigns\<close> leaves out, the value of the callable, here the reading
  \<open>now\<close> of the clock when the statement is executed. The store's part is modelled
  from the spec like INSERT: it rewrites the rows whose \<^verbatim>\<open>id\<close> is \<open>rid\<close> and checks them
  like inserted rows against the rows it leaves alone. (Rows that refer to a rewritten
  key are not checked.)
\<close>

definition onupdate_values :: "column list \<Rightarrow> int \<Rightarrow> row \<Rightarrow> row" where
  "onupdate_values cs now assigns =
     [(col_name c, TimeV now). c \<leftarrow> cs, col_onupdate c, col_name c \<notin> set (map fst assigns)]"

definition set_row :: "column list \<Rightarrow> row \<Rightarrow> row \<Rightarrow> row" where
  "set_row cs params r =
     map (\<lambda>c. (col_name c,
                case map_of params (col_name c) of
                  Some v \<Rightarrow> v
                | None \<Rightarrow> cell r (col_name c))) cs"

definition hit :: "int \<Rightarrow> row \<Rightarrow> bool" where
  "hit rid r = (cell r ''id'' = IntV rid)"

definition update_rows :: "database \<Rightarrow> string \<Rightarrow> int \<Rightarrow> row \<Rightarrow> error + database" where
  "update_rows db tn rid params =
     (case db tn of
        None \<Rightarrow> Inl ProgrammingError
      | Some t \<Rightarrow>
          let cs = tbl_columns t;
              changed = map (set_row cs params) (filter (hit rid) (tbl_rows t));
              kept = filter (\<lambda>r. \<not> hit rid r) (tbl_rows t);
              vs = concat (map (violations db cs kept) changed)
          in if \<not> set (''id'' # map fst params) \<subseteq> set (map col_name cs)
             then Inl ProgrammingError
             else if \<not> list_all (well_typed cs) changed then Inl DataError
             else if vs \<noteq> [] then Inl (IntegrityError vs)
             else Inr (db(tn \<mapsto> t
                    \<lparr>tbl_rows :=
                       map (\<lambda>r. if hit rid r then set_row cs params r else r) (tbl_rows t),
                     tbl_next_id := foldl (advance cs) (tbl_next_id t) changed\<rparr>)))"

definition update_stmt ::
  "load_clock \<Rightarrow> int \<Rightarrow> database \<Rightarrow> string \<Rightarrow> int \<Rightarrow> row \<Rightarrow> error + database" where
  "update_stmt lt now db tn rid assigns =
     (case map_of (metadata lt) tn of
        None \<Rightarrow> Inl CompileError
      | Some cs \<Rightarrow>
          if \<not> set (map fst assigns) \<subseteq> set (map col_name cs) then Inl CompileError
          else update_rows db tn rid (assigns @ onupdate_values cs now assigns))"

text \<open>Timestamps in the order of the clock; nothing else is comparable.\<close>

fun earlier :: "val \<Rightarrow> val \<Rightarrow> bool" where
  "earlier (TimeV a) (TimeV b) = (a < b)"
| "earlier _ _ = False"

subsection \<open>The course descriptions\<close>

text \<open>
  The two string literals of the script (lines 281-300 and 306-325), byte for byte in
  UTF-8: 1317 bytes each, equal but for the price in the second line.
\<close>

definition python_text :: string where
  "python_text =
     ''*'' @
     [CHR 0xD0, CHR 0x94, CHR 0xD0, CHR 0xBB, CHR 0xD0, CHR 0xB8, CHR 0xD1, CHR 0x82, CHR 0xD0,
      CHR 0xB5, CHR 0xD0, CHR 0xBB, CHR 0xD1, CHR 0x8C, CHR 0xD0, CHR 0xBD, CHR 0xD0, CHR 0xBE,
      CHR 0xD1, CHR 0x81, CHR 0xD1, CHR 0x82, CHR 0xD1, CHR 0x8C] @ '':* 4'' @
     [CHR 0xEF, CHR 0xB8, CHR 0x8F, CHR 0xE2, CHR 0x83, CHR 0xA3] @ '' '' @
     [CHR 0xD0, CHR 0xBC, CHR 0xD0, CHR 0xB5, CHR 0xD1, CHR 0x81, CHR 0xD1, CHR 0x8F, CHR 0xD1,
      CHR 0x86, CHR 0xD0, CHR 0xB0, CHR 0x0A] @ ''*'' @
     [CHR 0xD0, CHR 0xA1, CHR 0xD1, CHR 0x82, CHR 0xD0, CHR 0xBE, CHR 0xD0, CHR 0xB8, CHR 0xD0,
      CHR 0xBC, CHR 0xD0, CHR 0xBE, CHR 0xD1, CHR 0x81, CHR 0xD1, CHR 0x82, CHR 0xD1,
      CHR 0x8C] @ '':* 150$ / '' @ [CHR 0xD0, CHR 0xB7, CHR 0xD0, CHR 0xB0] @ '' '' @
     [CHR 0xD0, CHR 0xBC, CHR 0xD0, CHR 0xB5, CHR 0xD1, CHR 0x81, CHR 0xD1, CHR 0x8F, CHR 0xD1,
      CHR 0x86] @ '' '' @ [CHR 0xF0, CHR 0x9F, CHR 0xA4, CHR 0x8F, CHR 0x0A] @ ''*'' @
     [CHR 0xD0, CHR 0x9F, CHR 0xD1, CHR 0x80, CHR 0xD0, CHR 0xBE, CHR 0xD0, CHR 0xB3, CHR 0xD1,
      CHR 0x80, CHR 0xD0, CHR 0xB0, CHR 0xD0, CHR 0xBC, CHR 0xD0, CHR 0xBC, CHR 0xD0,
      CHR 0xB0] @ '' '' @
     [CHR 0xD0, CHR 0xBE, CHR 0xD0, CHR 0xB1, CHR 0xD1, CHR 0x83, CHR 0xD1, CHR 0x87, CHR 0xD0,
      CHR 0xB5, CHR 0xD0, CHR 0xBD, CHR 0xD0, CHR 0xB8, CHR 0xD1, CHR 0x8F] @ '':* '' @
     [CHR 0x0A] @ ''    '' @
     [CHR 0xD0, CHR 0x9C, CHR 0xD0, CHR 0xB5, CHR 0xD1, CHR 0x81, CHR 0xD1, CHR 0x8F, CHR 0xD1,
      CHR 0x86] @ '' 1: *'' @
     [CHR 0xD0, CHR 0x90, CHR 0xD0, CHR 0xBD, CHR 0xD0, CHR 0xB3, CHR 0xD0, CHR 0xBB, CHR 0xD0,
      CHR 0xB8, CHR 0xD0, CHR 0xB9, CHR 0xD1, CHR 0x81, CHR 0xD0, CHR 0xBA, CHR 0xD0, CHR 0xB8,
      CHR 0xD0, CHR 0xB9] @ '' + '' @
     [CHR 0xD0, CHR 0x9C, CHR 0xD0, CHR 0xB0, CHR 0xD1, CHR 0x82, CHR 0xD0, CHR 0xB5, CHR 0xD0,
      CHR 0xBC, CHR 0xD0, CHR 0xB0, CHR 0xD1, CHR 0x82, CHR 0xD0, CHR 0xB8, CHR 0xD0, CHR 0xBA,
      CHR 0xD0, CHR 0xB0] @ '' + Linux*'' @ [CHR 0x0A] @ ''    '' @
     [CHR 0xD0, CHR 0x9C, CHR 0xD0, CHR 0xB5, CHR 0xD1, CHR 0x81, CHR 0xD1, CHR 0x8F, CHR 0xD1,
      CHR 0x86] @ '' 2: *'' @
     [CHR 0xD0, CHR 0x97, CHR 0xD0, CHR 0xBD, CHR 0xD0, CHR 0xB0, CHR 0xD0, CHR 0xBA, CHR 0xD0,
      CHR 0xBE, CHR 0xD0, CHR 0xBC, CHR 0xD1, CHR 0x81, CHR 0xD1, CHR 0x82, CHR 0xD0, CHR 0xB2,
      CHR 0xD0, CHR 0xBE] @ '' '' @ [CHR 0xD1, CHR 0x81] @ '' '' @
     [CHR 0xD1, CHR 0x81, CHR 0xD0, CHR 0xB8, CHR 0xD0, CHR 0xBD, CHR 0xD1, CHR 0x82, CHR 0xD0,
      CHR 0xB0, CHR 0xD0, CHR 0xBA, CHR 0xD1, CHR 0x81, CHR 0xD0, CHR 0xB8, CHR 0xD1, CHR 0x81,
      CHR 0xD0, CHR 0xBE, CHR 0xD0, CHR 0xBC] @ '' '' @
     [CHR 0xD1, CHR 0x8F, CHR 0xD0, CHR 0xB7, CHR 0xD1, CHR 0x8B, CHR 0xD0, CHR 0xBA, CHR 0xD0,
      CHR 0xB0] @ '' Python*'' @ [CHR 0x0A] @ ''    '' @
     [CHR 0xD0, CHR 0x9C, CHR 0xD0, CHR 0xB5, CHR 0xD1, CHR 0x81, CHR 0xD1, CHR 0x8F, CHR 0xD1,
      CHR 0x86] @ '' 3: *'' @
     [CHR 0xD0, CHR 0xA3, CHR 0xD0, CHR 0xB3, CHR 0xD0, CHR 0xBB, CHR 0xD1, CHR 0x83, CHR 0xD0,
      CHR 0xB1, CHR 0xD0, CHR 0xBB, CHR 0xD0, CHR 0xB5, CHR 0xD0, CHR 0xBD, CHR 0xD0, CHR 0xBD,
      CHR 0xD0, CHR 0xBE, CHR 0xD0, CHR 0xB5] @ '' '' @
     [CHR 0xD0, CHR 0xB8, CHR 0xD0, CHR 0xB7, CHR 0xD1, CHR 0x83, CHR 0xD1, CHR 0x87, CHR 0xD0,
      CHR 0xB5, CHR 0xD0, CHR 0xBD, CHR 0xD0, CHR 0xB8, CHR 0xD1, CHR 0x8F] @ '' '' @
     [CHR 0xD1, CHR 0x8F, CHR 0xD0, CHR 0xB7, CHR 0xD1, CHR 0x8B, CHR 0xD0, CHR 0xBA, CHR 0xD0,
      CHR 0xB0] @ '' + '' @
     [CHR 0xD0, CHR 0x91, CHR 0xD0, CHR 0xB0, CHR 0xD0, CHR 0xB7, CHR 0xD1, CHR 0x8B] @ '' '' @
     [CHR 0xD0, CHR 0x94, CHR 0xD0, CHR 0xB0, CHR 0xD0, CHR 0xBD, CHR 0xD0, CHR 0xBD, CHR 0xD1,
      CHR 0x8B, CHR 0xD1, CHR 0x85] @ ''*'' @ [CHR 0x0A] @ ''    '' @
     [CHR 0xD0, CHR 0x9C, CHR 0xD0, CHR 0xB5, CHR 0xD1, CHR 0x81, CHR 0xD1, CHR 0x8F, CHR 0xD1,
      CHR 0x86] @ '' 4: *'' @
     [CHR 0xD0, CHR 0x98, CHR 0xD0, CHR 0xB7, CHR 0xD1, CHR 0x83, CHR 0xD1, CHR 0x87, CHR 0xD0,
      CHR 0xB5, CHR 0xD0, CHR 0xBD, CHR 0xD0, CHR 0xB8, CHR 0xD1, CHR 0x8F] @ '' '' @
     [CHR 0xD1, CHR 0x84, CHR 0xD1, CHR 0x80, CHR 0xD1, CHR 0x8D, CHR 0xD0, CHR 0xB9, CHR 0xD0,
      CHR 0xBC, CHR 0xD0, CHR 0xB2, CHR 0xD0, CHR 0xBE, CHR 0xD1, CHR 0x80, CHR 0xD0, CHR 0xBA,
      CHR 0xD0, CHR 0xB0] @ '' Django*'' @ [CHR 0x0A] @ ''    '' @ [CHR 0x0A] @ ''*'' @
     [CHR 0xD0, CHR 0x94, CHR 0xD0, CHR 0xBE, CHR 0xD0, CHR 0xBF, CHR 0xD0, CHR 0xBE, CHR 0xD0,
      CHR 0xBB, CHR 0xD0, CHR 0xBD, CHR 0xD0, CHR 0xB8, CHR 0xD1, CHR 0x82, CHR 0xD0, CHR 0xB5,
      CHR 0xD0, CHR 0xBB, CHR 0xD1, CHR 0x8C, CHR 0xD0, CHR 0xBD, CHR 0xD0, CHR 0xB0, CHR 0xD1,
      CHR 0x8F] @ '' '' @
     [CHR 0xD0, CHR 0xB8, CHR 0xD0, CHR 0xBD, CHR 0xD1, CHR 0x84, CHR 0xD0, CHR 0xBE, CHR 0xD1,
      CHR 0x80, CHR 0xD0, CHR 0xBC, CHR 0xD0, CHR 0xB0, CHR 0xD1, CHR 0x86, CHR 0xD0, CHR 0xB8,
      CHR 0xD1, CHR 0x8F] @ '':*'' @ [CHR 0x0A] @ ''    '' @
     [CHR 0xD0, CHR 0x92, CHR 0xD0, CHR 0xBE] @ '' '' @
     [CHR 0xD0, CHR 0xB2, CHR 0xD1, CHR 0x80, CHR 0xD0, CHR 0xB5, CHR 0xD0, CHR 0xBC, CHR 0xD1,
      CHR 0x8F] @ '' '' @
     [CHR 0xD0, CHR 0xB8, CHR 0xD0, CHR 0xB7, CHR 0xD1, CHR 0x83, CHR 0xD1, CHR 0x87, CHR 0xD0,
      CHR 0xB5, CHR 0xD0, CHR 0xBD, CHR 0xD0, CHR 0xB8, CHR 0xD1, CHR 0x8F] @ '' '' @
     [CHR 0xD1, CHR 0x8F, CHR 0xD0, CHR 0xB7, CHR 0xD1, CHR 0x8B, CHR 0xD0, CHR 0xBA, CHR 0xD0,
      CHR 0xB0] @ '' '' @
     [CHR 0xD0, CHR 0xBF, CHR 0xD1, CHR 0x80, CHR 0xD0, CHR 0xBE, CHR 0xD0, CHR 0xB3, CHR 0xD1,
      CHR 0x80, CHR 0xD0, CHR 0xB0, CHR 0xD0, CHR 0xBC, CHR 0xD0, CHR 0xBC, CHR 0xD0, CHR 0xB8,
      CHR 0xD1, CHR 0x80, CHR 0xD0, CHR 0xBE, CHR 0xD0, CHR 0xB2, CHR 0xD0, CHR 0xB0, CHR 0xD0,
      CHR 0xBD, CHR 0xD0, CHR 0xB8, CHR 0xD1, CHR 0x8F] @ ''('' @
     [CHR 0xD0, CHR 0xAF, CHR 0xD0, CHR 0x9F] @ '') Python '' @
     [CHR 0xD0, CHR 0xB2, CHR 0xD1, CHR 0x8B] @ '' '' @
     [CHR 0xD1, CHR 0x82, CHR 0xD0, CHR 0xB0, CHR 0xD0, CHR 0xBA, CHR 0xD0, CHR 0xB6, CHR 0xD0,
      CHR 0xB5] @ '' '' @
     [CHR 0xD0, CHR 0xBF, CHR 0xD0, CHR 0xBE, CHR 0xD0, CHR 0xBB, CHR 0xD1, CHR 0x83, CHR 0xD1,
      CHR 0x87, CHR 0xD0, CHR 0xB0, CHR 0xD0, CHR 0xB5, CHR 0xD1, CHR 0x82, CHR 0xD0,
      CHR 0xB5] @ '':'' @ [CHR 0x0A] @ ''    1. '' @
     [CHR 0xD0, CHR 0x98, CHR 0xD0, CHR 0xB7, CHR 0xD1, CHR 0x83, CHR 0xD1, CHR 0x87, CHR 0xD0,
      CHR 0xB5, CHR 0xD0, CHR 0xBD, CHR 0xD0, CHR 0xB8, CHR 0xD0, CHR 0xB5] @ '' '' @
     [CHR 0xD0, CHR 0xBD, CHR 0xD0, CHR 0xB5, CHR 0xD0, CHR 0xBE, CHR 0xD0, CHR 0xB1, CHR 0xD1,
      CHR 0x85, CHR 0xD0, CHR 0xBE, CHR 0xD0, CHR 0xB4, CHR 0xD0, CHR 0xB8, CHR 0xD0, CHR 0xBC,
      CHR 0xD1, CHR 0x8B, CHR 0xD1, CHR 0x85] @ '' '' @
     [CHR 0xD0, CHR 0xB1, CHR 0xD0, CHR 0xB8, CHR 0xD0, CHR 0xB1, CHR 0xD0, CHR 0xBB, CHR 0xD0,
      CHR 0xB8, CHR 0xD0, CHR 0xBE, CHR 0xD1, CHR 0x82, CHR 0xD0, CHR 0xB5, CHR 0xD0,
      CHR 0xBA] @ '' '' @
     [CHR 0xD0, CHR 0xBE, CHR 0xD1, CHR 0x82, CHR 0xD0, CHR 0xBD, CHR 0xD0, CHR 0xBE, CHR 0xD1,
      CHR 0x81, CHR 0xD1, CHR 0x8F, CHR 0xD1, CHR 0x89, CHR 0xD0, CHR 0xB8, CHR 0xD1, CHR 0x85,
      CHR 0xD1, CHR 0x81, CHR 0xD1, CHR 0x8F] @ '' '' @ [CHR 0xD0, CHR 0xBA] @ '' '' @
     [CHR 0xD0, CHR 0xAF, CHR 0xD0, CHR 0x9F] @ '' Python '' @
     [CHR 0xF0, CHR 0x9F, CHR 0x98, CHR 0xB1, CHR 0xF0, CHR 0x9F, CHR 0x98, CHR 0xB1, CHR 0xF0,
      CHR 0x9F, CHR 0x98, CHR 0xB1, CHR 0x0A] @ ''    2. '' @
     [CHR 0xD0, CHR 0x98, CHR 0xD0, CHR 0xB7, CHR 0xD1, CHR 0x83, CHR 0xD1, CHR 0x87, CHR 0xD0,
      CHR 0xB5, CHR 0xD0, CHR 0xBD, CHR 0xD0, CHR 0xB8, CHR 0xD0, CHR 0xB5] @ '' '' @
     [CHR 0xD0, CHR 0xBD, CHR 0xD0, CHR 0xB5, CHR 0xD1, CHR 0x81, CHR 0xD0, CHR 0xBA, CHR 0xD0,
      CHR 0xBE, CHR 0xD0, CHR 0xBB, CHR 0xD1, CHR 0x8C, CHR 0xD0, CHR 0xBA, CHR 0xD0, CHR 0xB8,
      CHR 0xD1, CHR 0x85] @ '' '' @
     [CHR 0xD0, CHR 0x91, CHR 0xD0, CHR 0xB0, CHR 0xD0, CHR 0xB7] @ '' '' @
     [CHR 0xD0, CHR 0x94, CHR 0xD0, CHR 0xB0, CHR 0xD0, CHR 0xBD, CHR 0xD0, CHR 0xBD, CHR 0xD1,
      CHR 0x8B, CHR 0xD1, CHR 0x85] @ '' '' @
     [CHR 0xF0, CHR 0x9F, CHR 0xA7, CHR 0x90, CHR 0x0A] @ ''    3. '' @
     [CHR 0xD0, CHR 0x92, CHR 0xD0, CHR 0xBE, CHR 0xD0, CHR 0xB7, CHR 0xD0, CHR 0xBC, CHR 0xD0,
      CHR 0xBE, CHR 0xD0, CHR 0xB6, CHR 0xD0, CHR 0xBD, CHR 0xD0, CHR 0xBE, CHR 0xD1, CHR 0x81,
      CHR 0xD1, CHR 0x82, CHR 0xD1, CHR 0x8C] @ '' '' @
     [CHR 0xD0, CHR 0xBD, CHR 0xD0, CHR 0xB0, CHR 0xD1, CHR 0x83, CHR 0xD1, CHR 0x87, CHR 0xD0,
      CHR 0xB8, CHR 0xD1, CHR 0x82, CHR 0xD1, CHR 0x8C, CHR 0xD1, CHR 0x81, CHR 0xD1,
      CHR 0x8F] @ '' '' @
     [CHR 0xD1, CHR 0x81, CHR 0xD0, CHR 0xBE, CHR 0xD0, CHR 0xB7, CHR 0xD0, CHR 0xB4, CHR 0xD0,
      CHR 0xB0, CHR 0xD0, CHR 0xB2, CHR 0xD0, CHR 0xB0, CHR 0xD1, CHR 0x82, CHR 0xD1,
      CHR 0x8C] @ '' Telegram '' @
     [CHR 0xD0, CHR 0xB1, CHR 0xD0, CHR 0xBE, CHR 0xD1, CHR 0x82, CHR 0xD1, CHR 0x8B] @ '' '' @
     [CHR 0xF0, CHR 0x9F, CHR 0xA4, CHR 0x96, CHR 0x0A] @ ''    4. '' @
     [CHR 0xD0, CHR 0x98, CHR 0xD0, CHR 0xB7, CHR 0xD1, CHR 0x83, CHR 0xD1, CHR 0x87, CHR 0xD0,
      CHR 0xB8, CHR 0xD1, CHR 0x82, CHR 0xD1, CHR 0x8C] @ '' '' @
     [CHR 0xD0, CHR 0xB2, CHR 0xD1, CHR 0x91, CHR 0xD1, CHR 0x80, CHR 0xD1, CHR 0x81, CHR 0xD1,
      CHR 0x82, CHR 0xD0, CHR 0xBA, CHR 0xD1, CHR 0x83] @ '' '' @
     [CHR 0xD0, CHR 0xBD, CHR 0xD0, CHR 0xB0] @ '' HTML+CSS '' @
     [CHR 0xF0, CHR 0x9F, CHR 0x91, CHR 0xA9, CHR 0xE2, CHR 0x80, CHR 0x8D, CHR 0xF0, CHR 0x9F,
      CHR 0x8E, CHR 0xA4, CHR 0xF0, CHR 0x9F, CHR 0xA7, CHR 0x91, CHR 0xE2, CHR 0x80, CHR 0x8D,
      CHR 0xF0, CHR 0x9F, CHR 0x8E, CHR 0xA4, CHR 0x0A] @ ''    5. '' @
     [CHR 0xD0, CHR 0x92, CHR 0xD0, CHR 0xBE, CHR 0xD0, CHR 0xB7, CHR 0xD0, CHR 0xBC, CHR 0xD0,
      CHR 0xBE, CHR 0xD0, CHR 0xB6, CHR 0xD0, CHR 0xBD, CHR 0xD0, CHR 0xBE, CHR 0xD1, CHR 0x81,
      CHR 0xD1, CHR 0x82, CHR 0xD1, CHR 0x8C] @ '' '' @
     [CHR 0xD1, CHR 0x80, CHR 0xD0, CHR 0xB0, CHR 0xD0, CHR 0xB1, CHR 0xD0, CHR 0xBE, CHR 0xD1,
      CHR 0x82, CHR 0xD0, CHR 0xB0, CHR 0xD1, CHR 0x82, CHR 0xD1, CHR 0x8C] @ '' '' @
     [CHR 0xD0, CHR 0xBD, CHR 0xD0, CHR 0xB0] @ '' '' @
     [CHR 0xD0, CHR 0xBE, CHR 0xD0, CHR 0xBF, CHR 0xD0, CHR 0xBB, CHR 0xD0, CHR 0xB0, CHR 0xD1,
      CHR 0x87, CHR 0xD0, CHR 0xB8, CHR 0xD0, CHR 0xB2, CHR 0xD0, CHR 0xB0, CHR 0xD0, CHR 0xB5,
      CHR 0xD0, CHR 0xBC, CHR 0xD1, CHR 0x8B, CHR 0xD1, CHR 0x85] @ '' '' @
     [CHR 0xD0, CHR 0xBF, CHR 0xD1, CHR 0x80, CHR 0xD0, CHR 0xBE, CHR 0xD0, CHR 0xB5, CHR 0xD0,
      CHR 0xBA, CHR 0xD1, CHR 0x82, CHR 0xD0, CHR 0xB0, CHR 0xD1, CHR 0x85] @ '' '' @
     [CHR 0xF0, CHR 0x9F, CHR 0xA4, CHR 0x91, CHR 0x0A] @ ''    6. '' @
     [CHR 0xD0, CHR 0xA3, CHR 0xD1, CHR 0x87, CHR 0xD0, CHR 0xB0, CHR 0xD1, CHR 0x81, CHR 0xD1,
      CHR 0x82, CHR 0xD0, CHR 0xB8, CHR 0xD0, CHR 0xB5] @ '' '' @ [CHR 0xD0, CHR 0xB2] @
     '' '' @
     [CHR 0xD0, CHR 0xBB, CHR 0xD0, CHR 0xBE, CHR 0xD0, CHR 0xBA, CHR 0xD0, CHR 0xB0, CHR 0xD0,
      CHR 0xBB, CHR 0xD1, CHR 0x8C, CHR 0xD0, CHR 0xBD, CHR 0xD1, CHR 0x8B, CHR 0xD1,
      CHR 0x85] @ '' '' @
     [CHR 0xD0, CHR 0xA5, CHR 0xD0, CHR 0xB0, CHR 0xD0, CHR 0xBA, CHR 0xD0, CHR 0xB0, CHR 0xD1,
      CHR 0x82, CHR 0xD0, CHR 0xBE, CHR 0xD0, CHR 0xBD, CHR 0xD0, CHR 0xB0, CHR 0xD1,
      CHR 0x85] @ '' '' @ [CHR 0xF0, CHR 0x9F, CHR 0x8F, CHR 0x86, CHR 0x0A] @ ''    7. '' @
     [CHR 0xD0, CHR 0x9A, CHR 0xD0, CHR 0xBE, CHR 0xD0, CHR 0xB2, CHR 0xD0, CHR 0xBE, CHR 0xD1,
      CHR 0x80, CHR 0xD0, CHR 0xBA, CHR 0xD0, CHR 0xB8, CHR 0xD0, CHR 0xBD, CHR 0xD0,
      CHR 0xB3] @ '' '' @ [CHR 0xD0, CHR 0xB8] @ '' '' @
     [CHR 0xD0, CHR 0xBD, CHR 0xD0, CHR 0xBE, CHR 0xD0, CHR 0xB2, CHR 0xD1, CHR 0x8B, CHR 0xD0,
      CHR 0xB5] @ '' '' @
     [CHR 0xD0, CHR 0xB7, CHR 0xD0, CHR 0xBD, CHR 0xD0, CHR 0xB0, CHR 0xD0, CHR 0xBA, CHR 0xD0,
      CHR 0xBE, CHR 0xD0, CHR 0xBC, CHR 0xD1, CHR 0x81, CHR 0xD1, CHR 0x82, CHR 0xD0, CHR 0xB2,
      CHR 0xD0, CHR 0xB0] @ '' '' @
     [CHR 0xF0, CHR 0x9F, CHR 0xA7, CHR 0x8D, CHR 0xE2, CHR 0x80, CHR 0x8D, CHR 0xE2, CHR 0x99,
      CHR 0x80, CHR 0xEF, CHR 0xB8, CHR 0x8F, CHR 0xF0, CHR 0x9F, CHR 0xA7, CHR 0x8D, CHR 0xF0,
      CHR 0x9F, CHR 0x90, CHR 0xBC, CHR 0xF0, CHR 0x9F, CHR 0xA6, CHR 0x89, CHR 0xF0, CHR 0x9F,
      CHR 0x91, CHR 0xBD, CHR 0x0A] @ ''    8. '' @
     [CHR 0xD0, CHR 0x9C, CHR 0xD0, CHR 0xBD, CHR 0xD0, CHR 0xBE, CHR 0xD0, CHR 0xB3, CHR 0xD0,
      CHR 0xBE, CHR 0xD0, CHR 0xB5] @ '' '' @
     [CHR 0xD0, CHR 0xBC, CHR 0xD0, CHR 0xBD, CHR 0xD0, CHR 0xBE, CHR 0xD0, CHR 0xB3, CHR 0xD0,
      CHR 0xBE, CHR 0xD0, CHR 0xB5] @ '' '' @
     [CHR 0xD0, CHR 0xB4, CHR 0xD1, CHR 0x80, CHR 0xD1, CHR 0x83, CHR 0xD0, CHR 0xB3, CHR 0xD0,
      CHR 0xBE, CHR 0xD0, CHR 0xB5] @ ''... '' @
     [CHR 0xF0, CHR 0x9F, CHR 0xA4, CHR 0xA4, CHR 0xF0, CHR 0x9F, CHR 0x98, CHR 0x8D, CHR 0xF0,
      CHR 0x9F, CHR 0xA4, CHR 0xA9, CHR 0x0A, CHR 0x0A]"

definition sys_admin_text :: string where
  "sys_admin_text =
     ''*'' @
     [CHR 0xD0, CHR 0x94, CHR 0xD0, CHR 0xBB, CHR 0xD0, CHR 0xB8, CHR 0xD1, CHR 0x82, CHR 0xD0,
      CHR 0xB5, CHR 0xD0, CHR 0xBB, CHR 0xD1, CHR 0x8C, CHR 0xD0, CHR 0xBD, CHR 0xD0, CHR 0xBE,
      CHR 0xD1, CHR 0x81, CHR 0xD1, CHR 0x82, CHR 0xD1, CHR 0x8C] @ '':* 4'' @
     [CHR 0xEF, CHR 0xB8, CHR 0x8F, CHR 0xE2, CHR 0x83, CHR 0xA3] @ '' '' @
     [CHR 0xD0, CHR 0xBC, CHR 0xD0, CHR 0xB5, CHR 0xD1, CHR 0x81, CHR 0xD1, CHR 0x8F, CHR 0xD1,
      CHR 0x86, CHR 0xD0, CHR 0xB0, CHR 0x0A] @ ''*'' @
     [CHR 0xD0, CHR 0xA1, CHR 0xD1, CHR 0x82, CHR 0xD0, CHR 0xBE, CHR 0xD0, CHR 0xB8, CHR 0xD0,
      CHR 0xBC, CHR 0xD0, CHR 0xBE, CHR 0xD1, CHR 0x81, CHR 0xD1, CHR 0x82, CHR 0xD1,
      CHR 0x8C] @ '':* 140$ / '' @ [CHR 0xD0, CHR 0xB7, CHR 0xD0, CHR 0xB0] @ '' '' @
     [CHR 0xD0, CHR 0xBC, CHR 0xD0, CHR 0xB5, CHR 0xD1, CHR 0x81, CHR 0xD1, CHR 0x8F, CHR 0xD1,
      CHR 0x86] @ '' '' @ [CHR 0xF0, CHR 0x9F, CHR 0xA4, CHR 0x8F, CHR 0x0A] @ ''*'' @
     [CHR 0xD0, CHR 0x9F, CHR 0xD1, CHR 0x80, CHR 0xD0, CHR 0xBE, CHR 0xD0, CHR 0xB3, CHR 0xD1,
      CHR 0x80, CHR 0xD0, CHR 0xB0, CHR 0xD0, CHR 0xBC, CHR 0xD0, CHR 0xBC, CHR 0xD0,
      CHR 0xB0] @ '' '' @
     [CHR 0xD0, CHR 0xBE, CHR 0xD0, CHR 0xB1, CHR 0xD1, CHR 0x83, CHR 0xD1, CHR 0x87, CHR 0xD0,
      CHR 0xB5, CHR 0xD0, CHR 0xBD, CHR 0xD0, CHR 0xB8, CHR 0xD1, CHR 0x8F] @ '':* '' @
     [CHR 0x0A] @ ''    '' @
     [CHR 0xD0, CHR 0x9C, CHR 0xD0, CHR 0xB5, CHR 0xD1, CHR 0x81, CHR 0xD1, CHR 0x8F, CHR 0xD1,
      CHR 0x86] @ '' 1: *'' @
     [CHR 0xD0, CHR 0x90, CHR 0xD0, CHR 0xBD, CHR 0xD0, CHR 0xB3, CHR 0xD0, CHR 0xBB, CHR 0xD0,
      CHR 0xB8, CHR 0xD0, CHR 0xB9, CHR 0xD1, CHR 0x81, CHR 0xD0, CHR 0xBA, CHR 0xD0, CHR 0xB8,
      CHR 0xD0, CHR 0xB9] @ '' + '' @
     [CHR 0xD0, CHR 0x9C, CHR 0xD0, CHR 0xB0, CHR 0xD1, CHR 0x82, CHR 0xD0, CHR 0xB5, CHR 0xD0,
      CHR 0xBC, CHR 0xD0, CHR 0xB0, CHR 0xD1, CHR 0x82, CHR 0xD0, CHR 0xB8, CHR 0xD0, CHR 0xBA,
      CHR 0xD0, CHR 0xB0] @ '' + Linux*'' @ [CHR 0x0A] @ ''    '' @
     [CHR 0xD0, CHR 0x9C, CHR 0xD0, CHR 0xB5, CHR 0xD1, CHR 0x81, CHR 0xD1, CHR 0x8F, CHR 0xD1,
      CHR 0x86] @ '' 2: *'' @
     [CHR 0xD0, CHR 0x97, CHR 0xD0, CHR 0xBD, CHR 0xD0, CHR 0xB0, CHR 0xD0, CHR 0xBA, CHR 0xD0,
      CHR 0xBE, CHR 0xD0, CHR 0xBC, CHR 0xD1, CHR 0x81, CHR 0xD1, CHR 0x82, CHR 0xD0, CHR 0xB2,
      CHR 0xD0, CHR 0xBE] @ '' '' @ [CHR 0xD1, CHR 0x81] @ '' '' @
     [CHR 0xD1, CHR 0x81, CHR 0xD0, CHR 0xB8, CHR 0xD0, CHR 0xBD, CHR 0xD1, CHR 0x82, CHR 0xD0,
      CHR 0xB0, CHR 0xD0, CHR 0xBA, CHR 0xD1, CHR 0x81, CHR 0xD0, CHR 0xB8, CHR 0xD1, CHR 0x81,
      CHR 0xD0, CHR 0xBE, CHR 0xD0, CHR 0xBC] @ '' '' @
     [CHR 0xD1, CHR 0x8F, CHR 0xD0, CHR 0xB7, CHR 0xD1, CHR 0x8B, CHR 0xD0, CHR 0xBA, CHR 0xD0,
      CHR 0xB0] @ '' Python*'' @ [CHR 0x0A] @ ''    '' @
     [CHR 0xD0, CHR 0x9C, CHR 0xD0, CHR 0xB5, CHR 0xD1, CHR 0x81, CHR 0xD1, CHR 0x8F, CHR 0xD1,
      CHR 0x86] @ '' 3: *'' @
     [CHR 0xD0, CHR 0xA3, CHR 0xD0, CHR 0xB3, CHR 0xD0, CHR 0xBB, CHR 0xD1, CHR 0x83, CHR 0xD0,
      CHR 0xB1, CHR 0xD0, CHR 0xBB, CHR 0xD0, CHR 0xB5, CHR 0xD0, CHR 0xBD, CHR 0xD0, CHR 0xBD,
      CHR 0xD0, CHR 0xBE, CHR 0xD0, CHR 0xB5] @ '' '' @
     [CHR 0xD0, CHR 0xB8, CHR 0xD0, CHR 0xB7, CHR 0xD1, CHR 0x83, CHR 0xD1, CHR 0x87, CHR 0xD0,
      CHR 0xB5, CHR 0xD0, CHR 0xBD, CHR 0xD0, CHR 0xB8, CHR 0xD1, CHR 0x8F] @ '' '' @
     [CHR 0xD1, CHR 0x8F, CHR 0xD0, CHR 0xB7, CHR 0xD1, CHR 0x8B, CHR 0xD0, CHR 0xBA, CHR 0xD0,
      CHR 0xB0] @ '' + '' @
     [CHR 0xD0, CHR 0x91, CHR 0xD0, CHR 0xB0, CHR 0xD0, CHR 0xB7, CHR 0xD1, CHR 0x8B] @ '' '' @
     [CHR 0xD0, CHR 0x94, CHR 0xD0, CHR 0xB0, CHR 0xD0, CHR 0xBD, CHR 0xD0, CHR 0xBD, CHR 0xD1,
      CHR 0x8B, CHR 0xD1, CHR 0x85] @ ''*'' @ [CHR 0x0A] @ ''    '' @
     [CHR 0xD0, CHR 0x9C, CHR 0xD0, CHR 0xB5, CHR 0xD1, CHR 0x81, CHR 0xD1, CHR 0x8F, CHR 0xD1,
      CHR 0x86] @ '' 4: *'' @
     [CHR 0xD0, CHR 0x98, CHR 0xD0, CHR 0xB7, CHR 0xD1, CHR 0x83, CHR 0xD1, CHR 0x87, CHR 0xD0,
      CHR 0xB5, CHR 0xD0, CHR 0xBD, CHR 0xD0, CHR 0xB8, CHR 0xD1, CHR 0x8F] @ '' '' @
     [CHR 0xD1, CHR 0x84, CHR 0xD1, CHR 0x80, CHR 0xD1, CHR 0x8D, CHR 0xD0, CHR 0xB9, CHR 0xD0,
      CHR 0xBC, CHR 0xD0, CHR 0xB2, CHR 0xD0, CHR 0xBE, CHR 0xD1, CHR 0x80, CHR 0xD0, CHR 0xBA,
      CHR 0xD0, CHR 0xB0] @ '' Django*'' @ [CHR 0x0A] @ ''    '' @ [CHR 0x0A] @ ''*'' @
     [CHR 0xD0, CHR 0x94, CHR 0xD0, CHR 0xBE, CHR 0xD0, CHR 0xBF, CHR 0xD0, CHR 0xBE, CHR 0xD0,
      CHR 0xBB, CHR 0xD0, CHR 0xBD, CHR 0xD0, CHR 0xB8, CHR 0xD1, CHR 0x82, CHR 0xD0, CHR 0xB5,
      CHR 0xD0, CHR 0xBB, CHR 0xD1, CHR 0x8C, CHR 0xD0, CHR 0xBD, CHR 0xD0, CHR 0xB0, CHR 0xD1,
      CHR 0x8F] @ '' '' @
     [CHR 0xD0, CHR 0xB8, CHR 0xD0, CHR 0xBD, CHR 0xD1, CHR 0x84, CHR 0xD0, CHR 0xBE, CHR 0xD1,
      CHR 0x80, CHR 0xD0, CHR 0xBC, CHR 0xD0, CHR 0xB0, CHR 0xD1, CHR 0x86, CHR 0xD0, CHR 0xB8,
      CHR 0xD1, CHR 0x8F] @ '':*'' @ [CHR 0x0A] @ ''    '' @
     [CHR 0xD0, CHR 0x92, CHR 0xD0, CHR 0xBE] @ '' '' @
     [CHR 0xD0, CHR 0xB2, CHR 0xD1, CHR 0x80, CHR 0xD0, CHR 0xB5, CHR 0xD0, CHR 0xBC, CHR 0xD1,
      CHR 0x8F] @ '' '' @
     [CHR 0xD0, CHR 0xB8, CHR 0xD0, CHR 0xB7, CHR 0xD1, CHR 0x83, CHR 0xD1, CHR 0x87, CHR 0xD0,
      CHR 0xB5, CHR 0xD0, CHR 0xBD, CHR 0xD0, CHR 0xB8, CHR 0xD1, CHR 0x8F] @ '' '' @
     [CHR 0xD1, CHR 0x8F, CHR 0xD0, CHR 0xB7, CHR 0xD1, CHR 0x8B, CHR 0xD0, CHR 0xBA, CHR 0xD0,
      CHR 0xB0] @ '' '' @
     [CHR 0xD0, CHR 0xBF, CHR 0xD1, CHR 0x80, CHR 0xD0, CHR 0xBE, CHR 0xD0, CHR 0xB3, CHR 0xD1,
      CHR 0x80, CHR 0xD0, CHR 0xB0, CHR 0xD0, CHR 0xBC, CHR 0xD0, CHR 0xBC, CHR 0xD0, CHR 0xB8,
      CHR 0xD1, CHR 0x80, CHR 0xD0, CHR 0xBE, CHR 0xD0, CHR 0xB2, CHR 0xD0, CHR 0xB0, CHR 0xD0,
      CHR 0xBD, CHR 0xD0, CHR 0xB8, CHR 0xD1, CHR 0x8F] @ ''('' @
     [CHR 0xD0, CHR 0xAF, CHR 0xD0, CHR 0x9F] @ '') Python '' @
     [CHR 0xD0, CHR 0xB2, CHR 0xD1, CHR 0x8B] @ '' '' @
     [CHR 0xD1, CHR 0x82, CHR 0xD0, CHR 0xB0, CHR 0xD0, CHR 0xBA, CHR 0xD0, CHR 0xB6, CHR 0xD0,
      CHR 0xB5] @ '' '' @
     [CHR 0xD0, CHR 0xBF, CHR 0xD0, CHR 0xBE, CHR 0xD0, CHR 0xBB, CHR 0xD1, CHR 0x83, CHR 0xD1,
      CHR 0x87, CHR 0xD0, CHR 0xB0, CHR 0xD0, CHR 0xB5, CHR 0xD1, CHR 0x82, CHR 0xD0,
      CHR 0xB5] @ '':'' @ [CHR 0x0A] @ ''    1. '' @
     [CHR 0xD0, CHR 0x98, CHR 0xD0, CHR 0xB7, CHR 0xD1, CHR 0x83, CHR 0xD1, CHR 0x87, CHR 0xD0,
      CHR 0xB5, CHR 0xD0, CHR 0xBD, CHR 0xD0, CHR 0xB8, CHR 0xD0, CHR 0xB5] @ '' '' @
     [CHR 0xD0, CHR 0xBD, CHR 0xD0, CHR 0xB5, CHR 0xD0, CHR 0xBE, CHR 0xD0, CHR 0xB1, CHR 0xD1,
      CHR 0x85, CHR 0xD0, CHR 0xBE, CHR 0xD0, CHR 0xB4, CHR 0xD0, CHR 0xB8, CHR 0xD0, CHR 0xBC,
      CHR 0xD1, CHR 0x8B, CHR 0xD1, CHR 0x85] @ '' '' @
     [CHR 0xD0, CHR 0xB1, CHR 0xD0, CHR 0xB8, CHR 0xD0, CHR 0xB1, CHR 0xD0, CHR 0xBB, CHR 0xD0,
      CHR 0xB8, CHR 0xD0, CHR 0xBE, CHR 0xD1, CHR 0x82, CHR 0xD0, CHR 0xB5, CHR 0xD0,
      CHR 0xBA] @ '' '' @
     [CHR 0xD0, CHR 0xBE, CHR 0xD1, CHR 0x82, CHR 0xD0, CHR 0xBD, CHR 0xD0, CHR 0xBE, CHR 0xD1,
      CHR 0x81, CHR 0xD1, CHR 0x8F, CHR 0xD1, CHR 0x89, CHR 0xD0, CHR 0xB8, CHR 0xD1, CHR 0x85,
      CHR 0xD1, CHR 0x81, CHR 0xD1, CHR 0x8F] @ '' '' @ [CHR 0xD0, CHR 0xBA] @ '' '' @
     [CHR 0xD0, CHR 0xAF, CHR 0xD0, CHR 0x9F] @ '' Python '' @
     [CHR 0xF0, CHR 0x9F, CHR 0x98, CHR 0xB1, CHR 0xF0, CHR 0x9F, CHR 0x98, CHR 0xB1, CHR 0xF0,
      CHR 0x9F, CHR 0x98, CHR 0xB1, CHR 0x0A] @ ''    2. '' @
     [CHR 0xD0, CHR 0x98, CHR 0xD0, CHR 0xB7, CHR 0xD1, CHR 0x83, CHR 0xD1, CHR 0x87, CHR 0xD0,
      CHR 0xB5, CHR 0xD0, CHR 0xBD, CHR 0xD0, CHR 0xB8, CHR 0xD0, CHR 0xB5] @ '' '' @
     [CHR 0xD0, CHR 0xBD, CHR 0xD0, CHR 0xB5, CHR 0xD1, CHR 0x81, CHR 0xD0, CHR 0xBA, CHR 0xD0,
      CHR 0xBE, CHR 0xD0, CHR 0xBB, CHR 0xD1, CHR 0x8C, CHR 0xD0, CHR 0xBA, CHR 0xD0, CHR 0xB8,
      CHR 0xD1, CHR 0x85] @ '' '' @
     [CHR 0xD0, CHR 0x91, CHR 0xD0, CHR 0xB0, CHR 0xD0, CHR 0xB7] @ '' '' @
     [CHR 0xD0, CHR 0x94, CHR 0xD0, CHR 0xB0, CHR 0xD0, CHR 0xBD, CHR 0xD0, CHR 0xBD, CHR 0xD1,
      CHR 0x8B, CHR 0xD1, CHR 0x85] @ '' '' @
     [CHR 0xF0, CHR 0x9F, CHR 0xA7, CHR 0x90, CHR 0x0A] @ ''    3. '' @
     [CHR 0xD0, CHR 0x92, CHR 0xD0, CHR 0xBE, CHR 0xD0, CHR 0xB7, CHR 0xD0, CHR 0xBC, CHR 0xD0,
      CHR 0xBE, CHR 0xD0, CHR 0xB6, CHR 0xD0, CHR 0xBD, CHR 0xD0, CHR 0xBE, CHR 0xD1, CHR 0x81,
      CHR 0xD1, CHR 0x82, CHR 0xD1, CHR 0x8C] @ '' '' @
     [CHR 0xD0, CHR 0xBD, CHR 0xD0, CHR 0xB0, CHR 0xD1, CHR 0x83, CHR 0xD1, CHR 0x87, CHR 0xD0,
      CHR 0xB8, CHR 0xD1, CHR 0x82, CHR 0xD1, CHR 0x8C, CHR 0xD1, CHR 0x81, CHR 0xD1,
      CHR 0x8F] @ '' '' @
     [CHR 0xD1, CHR 0x81, CHR 0xD0, CHR 0xBE, CHR 0xD0, CHR 0xB7, CHR 0xD0, CHR 0xB4, CHR 0xD0,
      CHR 0xB0, CHR 0xD0, CHR 0xB2, CHR 0xD0, CHR 0xB0, CHR 0xD1, CHR 0x82, CHR 0xD1,
      CHR 0x8C] @ '' Telegram '' @
     [CHR 0xD0, CHR 0xB1, CHR 0xD0, CHR 0xBE, CHR 0xD1, CHR 0x82, CHR 0xD1, CHR 0x8B] @ '' '' @
     [CHR 0xF0, CHR 0x9F, CHR 0xA4, CHR 0x96, CHR 0x0A] @ ''    4. '' @
     [CHR 0xD0, CHR 0x98, CHR 0xD0, CHR 0xB7, CHR 0xD1, CHR 0x83, CHR 0xD1, CHR 0x87, CHR 0xD0,
      CHR 0xB8, CHR 0xD1, CHR 0x82, CHR 0xD1, CHR 0x8C] @ '' '' @
     [CHR 0xD0, CHR 0xB2, CHR 0xD1, CHR 0x91, CHR 0xD1, CHR 0x80, CHR 0xD1, CHR 0x81, CHR 0xD1,
      CHR 0x82, CHR 0xD0, CHR 0xBA, CHR 0xD1, CHR 0x83] @ '' '' @
     [CHR 0xD0, CHR 0xBD, CHR 0xD0, CHR 0xB0] @ '' HTML+CSS '' @
     [CHR 0xF0, CHR 0x9F, CHR 0x91, CHR 0xA9, CHR 0xE2, CHR 0x80, CHR 0x8D, CHR 0xF0, CHR 0x9F,
      CHR 0x8E, CHR 0xA4, CHR 0xF0, CHR 0x9F, CHR 0xA7, CHR 0x91, CHR 0xE2, CHR 0x80, CHR 0x8D,
      CHR 0xF0, CHR 0x9F, CHR 0x8E, CHR 0xA4, CHR 0x0A] @ ''    5. '' @
     [CHR 0xD0, CHR 0x92, CHR 0xD0, CHR 0xBE, CHR 0xD0, CHR 0xB7, CHR 0xD0, CHR 0xBC, CHR 0xD0,
      CHR 0xBE, CHR 0xD0, CHR 0xB6, CHR 0xD0, CHR 0xBD, CHR 0xD0, CHR 0xBE, CHR 0xD1, CHR 0x81,
      CHR 0xD1, CHR 0x82, CHR 0xD1, CHR 0x8C] @ '' '' @
     [CHR 0xD1, CHR 0x80, CHR 0xD0, CHR 0xB0, CHR 0xD0, CHR 0xB1, CHR 0xD0, CHR 0xBE, CHR 0xD1,
      CHR 0x82, CHR 0xD0, CHR 0xB0, CHR 0xD1, CHR 0x82, CHR 0xD1, CHR 0x8C] @ '' '' @
     [CHR 0xD0, CHR 0xBD, CHR 0xD0, CHR 0xB0] @ '' '' @
     [CHR 0xD0, CHR 0xBE, CHR 0xD0, CHR 0xBF, CHR 0xD0, CHR 0xBB, CHR 0xD0, CHR 0xB0, CHR 0xD1,
      CHR 0x87, CHR 0xD0, CHR 0xB8, CHR 0xD0, CHR 0xB2, CHR 0xD0, CHR 0xB0, CHR 0xD0, CHR 0xB5,
      CHR 0xD0, CHR 0xBC, CHR 0xD1, CHR 0x8B, CHR 0xD1, CHR 0x85] @ '' '' @
     [CHR 0xD0, CHR 0xBF, CHR 0xD1, CHR 0x80, CHR 0xD0, CHR 0xBE, CHR 0xD0, CHR 0xB5, CHR 0xD0,
      CHR 0xBA, CHR 0xD1, CHR 0x82, CHR 0xD0, CHR 0xB0, CHR 0xD1, CHR 0x85] @ '' '' @
     [CHR 0xF0, CHR 0x9F, CHR 0xA4, CHR 0x91, CHR 0x0A] @ ''    6. '' @
     [CHR 0xD0, CHR 0xA3, CHR 0xD1, CHR 0x87, CHR 0xD0, CHR 0xB0, CHR 0xD1, CHR 0x81, CHR 0xD1,
      CHR 0x82, CHR 0xD0, CHR 0xB8, CHR 0xD0, CHR 0xB5] @ '' '' @ [CHR 0xD0, CHR 0xB2] @
     '' '' @
     [CHR 0xD0, CHR 0xBB, CHR 0xD0, CHR 0xBE, CHR 0xD0, CHR 0xBA, CHR 0xD0, CHR 0xB0, CHR 0xD0,
      CHR 0xBB, CHR 0xD1, CHR 0x8C, CHR 0xD0, CHR 0xBD, CHR 0xD1, CHR 0x8B, CHR 0xD1,
      CHR 0x85] @ '' '' @
     [CHR 0xD0, CHR 0xA5, CHR 0xD0, CHR 0xB0, CHR 0xD0, CHR 0xBA, CHR 0xD0, CHR 0xB0, CHR 0xD1,
      CHR 0x82, CHR 0xD0, CHR 0xBE, CHR 0xD0, CHR 0xBD, CHR 0xD0, CHR 0xB0, CHR 0xD1,
      CHR 0x85] @ '' '' @ [CHR 0xF0, CHR 0x9F, CHR 0x8F, CHR 0x86, CHR 0x0A] @ ''    7. '' @
     [CHR 0xD0, CHR 0x9A, CHR 0xD0, CHR 0xBE, CHR 0xD0, CHR 0xB2, CHR 0xD0, CHR 0xBE, CHR 0xD1,
      CHR 0x80, CHR 0xD0, CHR 0xBA, CHR 0xD0, CHR 0xB8, CHR 0xD0, CHR 0xBD, CHR 0xD0,
      CHR 0xB3] @ '' '' @ [CHR 0xD0, CHR 0xB8] @ '' '' @
     [CHR 0xD0, CHR 0xBD, CHR 0xD0, CHR 0xBE, CHR 0xD0, CHR 0xB2, CHR 0xD1, CHR 0x8B, CHR 0xD0,
      CHR 0xB5] @ '' '' @
     [CHR 0xD0, CHR 0xB7, CHR 0xD0, CHR 0xBD, CHR 0xD0, CHR 0xB0, CHR 0xD0, CHR 0xBA, CHR 0xD0,
      CHR 0xBE, CHR 0xD0, CHR 0xBC, CHR 0xD1, CHR 0x81, CHR 0xD1, CHR 0x82, CHR 0xD0, CHR 0xB2,
      CHR 0xD0, CHR 0xB0] @ '' '' @
     [CHR 0xF0, CHR 0x9F, CHR 0xA7, CHR 0x8D, CHR 0xE2, CHR 0x80, CHR 0x8D, CHR 0xE2, CHR 0x99,
      CHR 0x80, CHR 0xEF, CHR 0xB8, CHR 0x8F, CHR 0xF0, CHR 0x9F, CHR 0xA7, CHR 0x8D, CHR 0xF0,
      CHR 0x9F, CHR 0x90, CHR 0xBC, CHR 0xF0, CHR 0x9F, CHR 0xA6, CHR 0x89, CHR 0xF0, CHR 0x9F,
      CHR 0x91, CHR 0xBD, CHR 0x0A] @ ''    8. '' @
     [CHR 0xD0, CHR 0x9C, CHR 0xD0, CHR 0xBD, CHR 0xD0, CHR 0xBE, CHR 0xD0, CHR 0xB3, CHR 0xD0,
      CHR 0xBE, CHR 0xD0, CHR 0xB5] @ '' '' @
     [CHR 0xD0, CHR 0xBC, CHR 0xD0, CHR 0xBD, CHR 0xD0, CHR 0xBE, CHR 0xD0, CHR 0xB3, CHR 0xD0,
      CHR 0xBE, CHR 0xD0, CHR 0xB5] @ '' '' @
     [CHR 0xD0, CHR 0xB4, CHR 0xD1, CHR 0x80, CHR 0xD1, CHR 0x83, CHR 0xD0, CHR 0xB3, CHR 0xD0,
      CHR 0xBE, CHR 0xD0, CHR 0xB5] @ ''... '' @
     [CHR 0xF0, CHR 0x9F, CHR 0xA4, CHR 0xA4, CHR 0xF0, CHR 0x9F, CHR 0x98, CHR 0x8D, CHR 0xF0,
      CHR 0x9F, CHR 0xA4, CHR 0xA9, CHR 0x0A, CHR 0x0A]"

section \<open>The seeding script\<close>

text \<open>
  \<^verbatim>\<open>recreate_database\<close> runs three transactions. \<^verbatim>\<open>async with engine.begin()\<close> drops and
  creates the tables and commits. \<^verbatim>\<open>async with session.begin()\<close> adds the four
  \<^verbatim>\<open>Department\<close> objects and commits when the block is left. After that block the two
  \<^verbatim>\<open>insert(Course)\<close> statements are built, \<^verbatim>\<open>session.execute(python_info)\<close> opens a new
  transaction, and \<^verbatim>\<open>session.commit()\<close> ends it. An exception leaves the enclosing
  \<^verbatim>\<open>async with\<close>, which rolls the open transaction back; what was committed stays.

  So a stage maps the committed database to the next committed database or to the
  exception it raised, and the script returns the exception, if any, with the database
  as committed when it stopped. \<open>fault\<close> names the stage, if any, in which the store
  cannot be reached.
\<close>

datatype stage = SchemaStage | DepartmentStage | CourseStage

definition python :: row where
  "python = [(''id'', IntV 1), (''department_name'', StrV ''Python'')]"

definition sys_admin :: row where
  "sys_admin = [(''id'', IntV 2), (''department_name'', StrV ''System Administrator'')]"

definition javascript :: row where
  "javascript = [(''id'', IntV 3), (''department_name'', StrV ''Javascript'')]"

definition java :: row where
  "java = [(''id'', IntV 4), (''department_name'', StrV ''Java'')]"

text \<open>
  The two statements. \<^verbatim>\<open>python.id\<close> and \<^verbatim>\<open>sys_admin.id\<close> are read from the objects, which
  keep the identities they were constructed with (\<^verbatim>\<open>expire_on_commit=False\<close>). The
  source binds the second statement to the name \<^verbatim>\<open>sys_admin\<close>; the right-hand side, and
  with it \<^verbatim>\<open>sys_admin.id\<close>, is evaluated before the name is rebound.
\<close>

definition python_info :: "string \<times> row" where
  "python_info =
     (''course'', [(''department_info'', StrV python_text),
                   (''department_id'', cell python ''id'')])"

definition sys_admin_stmt :: "string \<times> row" where
  "sys_admin_stmt =
     (''course'', [(''department_info'', StrV sys_admin_text),
                   (''department_id'', cell sys_admin ''id'')])"

text \<open>\<^verbatim>\<open>session.add_all\<close> and the flush: one INSERT per object, in order.\<close>

fun add_all :: "load_clock \<Rightarrow> database \<Rightarrow> string \<Rightarrow> row list \<Rightarrow> error + database" where
  "add_all lt db tn [] = Inr db"
| "add_all lt db tn (x # xs) =
     (case insert_stmt lt db tn x of
        Inl e \<Rightarrow> Inl e
      | Inr db' \<Rightarrow> add_all lt db' tn xs)"

definition execute :: "load_clock \<Rightarrow> database \<Rightarrow> string \<times> row \<Rightarrow> error + database" where
  "execute lt db stmt = insert_stmt lt db (fst stmt) (snd stmt)"

definition schema_stage :: "load_clock \<Rightarrow> stage option \<Rightarrow> database \<Rightarrow> error + database" where
  "schema_stage lt fault db =
     (if fault = Some SchemaStage then Inl OperationalError
      else Inr (create_all (metadata lt) (drop_all (metadata lt) db)))"

definition department_stage :: "load_clock \<Rightarrow> stage option \<Rightarrow> database \<Rightarrow> error + database" where
  "department_stage lt fault db =
     (if fault = Some DepartmentStage then Inl OperationalError
      else add_all lt db ''department'' [python, sys_admin, javascript, java])"

text \<open>Only \<^verbatim>\<open>python_info\<close> is passed to \<^verbatim>\<open>session.execute\<close>.\<close>

definition course_stage :: "load_clock \<Rightarrow> stage option \<Rightarrow> database \<Rightarrow> error + database" where
  "course_stage lt fault db =
     (if fault = Some CourseStage then Inl OperationalError
      else execute lt db python_info)"

definition recreate_database ::
  "load_clock \<Rightarrow> stage option \<Rightarrow> database \<Rightarrow> error option \<times> database" where
  "recreate_database lt fault db0 =
     (case schema_stage lt fault db0 of
        Inl e \<Rightarrow> (Some e, db0)
      | Inr db1 \<Rightarrow>
          (case department_stage lt fault db1 of
             Inl e \<Rightarrow> (Some e, db1)
           | Inr db2 \<Rightarrow>
               (case course_stage lt fault db2 of
                  Inl e \<Rightarrow> (Some e, db2)
                | Inr db3 \<Rightarrow> (None, db3))))"

subsection \<open>States up to their timestamps\<close>

text \<open>
  Two runs of the script are two imports of the module, with two pairs of clock
  readings. To compare what they leave behind, \<open>untimed\<close> removes from a database what
  is derived from such readings: the cells \<^verbatim>\<open>created_at\<close> and \<^verbatim>\<open>updated_at\<close> of the rows and
  the server defaults of the \<^verbatim>\<open>TIMESTAMP\<close> columns.
\<close>

definition untimed_row :: "row \<Rightarrow> row" where
  "untimed_row r = filter (\<lambda>x. fst x \<noteq> ''created_at'' \<and> fst x \<noteq> ''updated_at'') r"

definition untimed_column :: "column \<Rightarrow> column" where
  "untimed_column c =
     (if col_type c = TIMESTAMP then c\<lparr>col_server_default := None\<rparr> else c)"

definition untimed_table :: "table \<Rightarrow> table" where
  "untimed_table t =
     t\<lparr>tbl_columns := map untimed_column (tbl_columns t),
       tbl_rows := map untimed_row (tbl_rows t)\<rparr>"

definition untimed :: "database \<Rightarrow> database" where
  "untimed db = (\<lambda>tn. map_option untimed_table (db tn))"

subsection \<open>Notions the properties are stated with\<close>

text \<open>The foreign keys a metadata declares: table, column, referenced table and column.\<close>

definition foreign_keys ::
  "(string \<times> column list) list \<Rightarrow> (string \<times> string \<times> string \<times> string) list" where
  "foreign_keys meta =
     concat (map (\<lambda>(tn, cs).
       concat (map (\<lambda>c. case col_foreign_key c of
                            None \<Rightarrow> []
                          | Some fk \<Rightarrow> [(tn, col_name c, fk)]) cs)) meta)"

text \<open>
  What a statement says about a column is acceptable when the value given is of the
  column's type and is not \<^verbatim>\<open>NULL\<close> unless the column is nullable, or when nothing is
  given and the column is nullable or has a default.
\<close>

definition acceptable :: "column \<Rightarrow> row \<Rightarrow> bool" where
  "acceptable c vals =
     (case map_of vals (col_name c) of
        Some v \<Rightarrow> fits (col_type c) v \<and> (v \<noteq> Null \<or> col_nullable c)
      | None \<Rightarrow> col_nullable c \<or> col_server_default c \<noteq> None \<or> col_default c \<noteq> None)"

text \<open>
  The identities a table holds, and the invariant of the identity generator: the
  identities are distinct integers, all below the generator's next value.
\<close>

definition ids :: "table \<Rightarrow> val list" where
  "ids t = column_values (tbl_rows t) ''id''"

definition below :: "int \<Rightarrow> val \<Rightarrow> bool" where
  "below n v = (case v of IntV k \<Rightarrow> k < n | _ \<Rightarrow> False)"

definition id_ok :: "table \<Rightarrow> bool" where
  "id_ok t = (distinct (ids t) \<and> list_all (below (tbl_next_id t)) (ids t))"

text \<open>
  What the proofs use of the way the module declares its columns: the key \<^verbatim>\<open>id\<close>, the
  columns that refer to a department, and the defaults.
\<close>

definition shape :: "string \<Rightarrow> column \<Rightarrow> bool" where
  "shape tn c =
     ((col_name c = ''id'' \<longrightarrow>
         col_primary_key c \<and> col_autoincrement c \<and> \<not> col_nullable c \<and>
         col_server_default c = None \<and>
         col_default c = None \<and> col_type c = Integer \<and> col_foreign_key c = None) \<and>
      (col_foreign_key c \<noteq> None \<longrightarrow>
         col_nullable c \<and> col_server_default c = None \<and> col_default c = None \<and>
         \<not> col_unique c \<and> tn \<noteq> ''reception'' \<and> tn \<noteq> ''department'') \<and>
      (col_primary_key c \<longrightarrow> col_name c = ''id'') \<and>
      (col_unique c \<longrightarrow> col_name c = ''id'' \<or> tn = ''department'') \<and>
      (col_default c \<noteq> None \<longrightarrow> tn = ''reception'') \<and>
      (case col_server_default c of None \<Rightarrow> True | Some d \<Rightarrow> d \<noteq> Null \<and> fits (col_type c) d) \<and>
      (case col_default c of None \<Rightarrow> True | Some d \<Rightarrow> d \<noteq> Null \<and> fits (col_type c) d))"

text \<open>
  The module is a library for the bot, which is not among the sources. What the bot may
  do to the store is modelled as any sequence of the two statements; each carries the
  clock reading at which it is executed, and one that raises leaves the database as it
  was.
\<close>

datatype statement = InsertInto string row | UpdateWhere int string int row

fun apply_statement :: "load_clock \<Rightarrow> database \<Rightarrow> statement \<Rightarrow> database" where
  "apply_statement lt db (InsertInto tn vals) =
     (case insert_stmt lt db tn vals of Inl e \<Rightarrow> db | Inr db' \<Rightarrow> db')"
| "apply_statement lt db (UpdateWhere now tn rid assigns) =
     (case update_stmt lt now db tn rid assigns of Inl e \<Rightarrow> db | Inr db' \<Rightarrow> db')"

fun run :: "load_clock \<Rightarrow> database \<Rightarrow> statement list \<Rightarrow> database" where
  "run lt db [] = db"
| "run lt db (s # ss) = run lt (apply_statement lt db s) ss"

text \<open>
  A statement leaves the timestamps to the module when it names neither \<^verbatim>\<open>created_at\<close>
  nor \<^verbatim>\<open>updated_at\<close>; an UPDATE is before \<open>n\<close> when the clock read less than \<open>n\<close> as it
  was executed (an INSERT reads no clock); a row is stamped before \<open>n\<close> when both its
  timestamps are readings below \<open>n\<close>.
\<close>

definition stamp_free :: "row \<Rightarrow> bool" where
  "stamp_free vals =
     (''created_at'' \<notin> set (map fst vals) \<and> ''updated_at'' \<notin> set (map fst vals))"

fun unstamped :: "statement \<Rightarrow> bool" where
  "unstamped (InsertInto tn vals) = stamp_free vals"
| "unstamped (UpdateWhere now tn rid assigns) = stamp_free assigns"

fun clock_before :: "int \<Rightarrow> statement \<Rightarrow> bool" where
  "clock_before n (InsertInto tn vals) = True"
| "clock_before n (UpdateWhere now tn rid assigns) = (now < n)"

definition stamped_before :: "int \<Rightarrow> row \<Rightarrow> bool" where
  "stamped_before n r =
     (earlier (cell r ''created_at'') (TimeV n) \<and> earlier (cell r ''updated_at'') (TimeV n))"

section \<open>Unfolding\<close>

lemmas schema_defs =
  metadata_def Reception_def Department_def Customer_def Course_def Vacancy_def News_def
  BaseModel_def Column_def ddl_def

lemmas engine_defs =
  insert_stmt_def insert_row_def new_row_def stored_value_def python_defaults_def
  well_typed_def violations_def not_null_violations_def unique_violations_def
  foreign_key_violations_def dangling_def referenced_def column_values_def cell_def
  advance_def create_table_def

lemmas script_defs =
  recreate_database_def schema_stage_def department_stage_def course_stage_def
  execute_def python_info_def python_def sys_admin_def javascript_def java_def
  create_all_def drop_all_def

section \<open>Facts about the schema and the store\<close>

lemma metadata_cases:
  assumes "map_of (metadata lt) tn = Some cs"
  obtains "tn = ''reception''" "cs = Reception lt"
  | "tn = ''department''" "cs = Department lt"
  | "tn = ''customer''" "cs = Customer lt"
  | "tn = ''course''" "cs = Course lt"
  | "tn = ''vacancy''" "cs = Vacancy lt"
  | "tn = ''news''" "cs = News lt"
  using assms by (auto simp: metadata_def split: if_splits)

lemma metadata_column_names:
  "map col_name (Reception lt) = [''id'', ''created_at'', ''updated_at'', ''apply'', ''about_courses'', ''about_company'', ''vacancies'', ''news'']"
  "map col_name (Department lt) = [''id'', ''created_at'', ''updated_at'', ''department_name'']"
  "map col_name (Customer lt) = [''id'', ''created_at'', ''updated_at'', ''chat_id'', ''first_name'', ''last_name'', ''phone'', ''time'', ''department_name'']"
  "map col_name (Course lt) = [''id'', ''created_at'', ''updated_at'', ''department_id'', ''department_info'']"
  "map col_name (Vacancy lt) = [''id'', ''created_at'', ''updated_at'', ''vacancy_type'', ''department_id'', ''vacancy_label'', ''vacancy_info'']"
  "map col_name (News lt) = [''id'', ''created_at'', ''updated_at'', ''department_id'', ''news_source'', ''news_label'']"
  by (simp_all add: schema_defs)

lemma col_name_ddl [simp]: "col_name (ddl c) = col_name c"
  by (simp add: ddl_def)

lemma col_name_comp_ddl [simp]: "col_name \<circ> ddl = col_name"
  by (rule ext) simp

lemma map_col_name_ddl: "map col_name (map ddl cs) = map col_name cs"
  by simp

lemma metadata_distinct:
  assumes "map_of (metadata lt) tn = Some cs"
  shows "distinct (map col_name cs)"
  using assms by (rule metadata_cases) (simp_all add: metadata_column_names)

lemma insert_row_Inr:
  assumes "insert_row db tn params = Inr db'"
  obtains t where "db tn = Some t"
    "set (map fst params) \<subseteq> set (map col_name (tbl_columns t))"
    "well_typed (tbl_columns t) (new_row t params)"
    "violations db (tbl_columns t) (tbl_rows t) (new_row t params) = []"
    "db' = db(tn \<mapsto> t\<lparr>tbl_rows := tbl_rows t @ [new_row t params],
                        tbl_next_id := advance (tbl_columns t) (tbl_next_id t) (new_row t params)\<rparr>)"
  using assms by (auto simp: insert_row_def split: option.splits if_splits)

lemma insert_stmt_Inr:
  assumes "insert_stmt lt db tn vals = Inr db'"
  obtains cs where "map_of (metadata lt) tn = Some cs"
    "set (map fst vals) \<subseteq> set (map col_name cs)"
    "insert_row db tn (vals @ python_defaults cs vals) = Inr db'"
  using assms by (auto simp: insert_stmt_def split: option.splits if_splits)

lemma insert_row_frame:
  "insert_row db tn params = Inr db' \<Longrightarrow> tn' \<noteq> tn \<Longrightarrow> db' tn' = db tn'"
  by (auto simp: insert_row_def split: option.splits if_splits)

lemma insert_stmt_frame:
  "insert_stmt lt db tn vals = Inr db' \<Longrightarrow> tn' \<noteq> tn \<Longrightarrow> db' tn' = db tn'"
  by (auto simp: insert_stmt_def split: option.splits if_splits dest: insert_row_frame)

lemma map_of_columns:
  "distinct (map col_name cs) \<Longrightarrow> c \<in> set cs \<Longrightarrow>
   map_of (map (\<lambda>c. (col_name c, f c)) cs) (col_name c) = Some (f c)"
  by (induction cs) (auto simp: rev_image_eqI)

lemma map_of_columns_absent:
  "n \<notin> set (map col_name cs) \<Longrightarrow> map_of (map (\<lambda>c. (col_name c, f c)) cs) n = None"
  by (induction cs) auto

lemma cell_new_row:
  "distinct (map col_name (tbl_columns t)) \<Longrightarrow> c \<in> set (tbl_columns t) \<Longrightarrow>
   cell (new_row t params) (col_name c) = stored_value (tbl_next_id t) params c"
  by (simp add: cell_def new_row_def map_of_columns)

lemma python_defaults_base:
  assumes "map_of (metadata lt) tn = Some cs"
    and "n \<in> {''id'', ''created_at'', ''updated_at''}"
  shows "map_of (python_defaults cs vals) n = None"
  using assms(1)
  by (rule metadata_cases) (use assms(2) in \<open>auto simp: python_defaults_def schema_defs\<close>)

lemma python_defaults_other:
  assumes "map_of (metadata lt) tn = Some cs" "tn \<noteq> ''reception''"
  shows "python_defaults cs vals = []"
  using assms(1)
  by (rule metadata_cases) (use assms(2) in \<open>auto simp: python_defaults_def schema_defs\<close>)

lemma created_at_column:
  assumes "map_of (metadata lt) tn = Some cs"
  shows "(Column ''created_at'' TIMESTAMP)\<lparr>col_nullable := False, col_server_default := Some (TimeV (created_now lt))\<rparr> \<in> set (map ddl cs)"
  using assms by (rule metadata_cases) (simp_all add: schema_defs)

lemma update_rows_Inr:
  assumes "update_rows db tn rid params = Inr db'"
  obtains t where "db tn = Some t"
    "set (''id'' # map fst params) \<subseteq> set (map col_name (tbl_columns t))"
    "db' = db(tn \<mapsto> t\<lparr>tbl_rows :=
         map (\<lambda>r. if hit rid r then set_row (tbl_columns t) params r else r) (tbl_rows t),
       tbl_next_id := foldl (advance (tbl_columns t)) (tbl_next_id t)
         (map (set_row (tbl_columns t) params) (filter (hit rid) (tbl_rows t)))\<rparr>)"
  using assms by (auto simp: update_rows_def Let_def split: option.splits if_splits)

lemma update_stmt_Inr:
  assumes "update_stmt lt now db tn rid assigns = Inr db'"
  obtains cs where "map_of (metadata lt) tn = Some cs"
    "set (map fst assigns) \<subseteq> set (map col_name cs)"
    "update_rows db tn rid (assigns @ onupdate_values cs now assigns) = Inr db'"
  using assms by (auto simp: update_stmt_def split: option.splits if_splits)

lemma map_of_by_name:
  "map_of (map (\<lambda>c. (col_name c, g (col_name c))) cs) n =
     (if n \<in> set (map col_name cs) then Some (g n) else None)"
  by (induction cs) auto

lemma cell_set_row:
  "n \<in> set (map col_name cs) \<Longrightarrow>
   cell (set_row cs params r) n = (case map_of params n of Some v \<Rightarrow> v | None \<Rightarrow> cell r n)"
  unfolding set_row_def cell_def
  by (subst map_of_by_name [where g = "\<lambda>n. case map_of params n of Some v \<Rightarrow> v | None \<Rightarrow> (case map_of r n of Some v \<Rightarrow> v | None \<Rightarrow> Null)"]) simp

lemma onupdate_values_updated_at:
  assumes "map_of (metadata lt) tn = Some cs" "''updated_at'' \<notin> set (map fst assigns)"
  shows "onupdate_values cs now assigns = [(''updated_at'', TimeV now)]"
  using assms(1)
  by (rule metadata_cases) (use assms(2) in \<open>auto simp: onupdate_values_def schema_defs\<close>)

lemma base_columns:
  assumes "map_of (metadata lt) tn = Some cs"
  shows "{''id'', ''created_at'', ''updated_at''} \<subseteq> set (map col_name cs)"
  using assms by (rule metadata_cases) (simp_all add: metadata_column_names)

lemma python_defaults_keys:
  "set (map fst (python_defaults cs vals)) \<subseteq> set (map col_name cs)"
  by (induction cs) (auto simp: python_defaults_def split: option.splits if_splits)

lemma unique_violationI:
  "c \<in> set cs \<Longrightarrow> col_unique c \<or> col_primary_key c \<Longrightarrow> cell r (col_name c) \<noteq> Null \<Longrightarrow>
   cell r (col_name c) \<in> set (column_values rs (col_name c)) \<Longrightarrow>
   UniqueViolation (col_name c) \<in> set (unique_violations cs rs r)"
  by (auto simp: unique_violations_def)

lemma foreign_key_violationI:
  "c \<in> set cs \<Longrightarrow> dangling db c r \<Longrightarrow>
   ForeignKeyViolation (col_name c) \<in> set (foreign_key_violations db cs r)"
  by (auto simp: foreign_key_violations_def)

lemma map_of_params:
  "map_of vals n = Some v \<Longrightarrow> map_of (vals @ extra) n = Some v"
  by (simp add: map_add_def)

lemma stored_value_given:
  "map_of params (col_name c) = Some v \<Longrightarrow> stored_value next params c = v"
  by (simp add: stored_value_def)

text \<open>What an INSERT statement that names known columns comes to.\<close>

lemma insert_stmt_outcome:
  assumes "map_of (metadata clt) tn = Some cs" "db tn = Some t" "tbl_columns t = map ddl cs"
  shows "insert_stmt lt db tn vals = Inl CompileError \<or>
         insert_stmt lt db tn vals = Inl DataError \<or>
         (\<exists>cs'. map_of (metadata lt) tn = Some cs' \<and>
            insert_stmt lt db tn vals =
              (if violations db (tbl_columns t) (tbl_rows t) (new_row t (vals @ python_defaults cs' vals)) \<noteq> []
               then Inl (IntegrityError (violations db (tbl_columns t) (tbl_rows t) (new_row t (vals @ python_defaults cs' vals))))
               else Inr (db(tn \<mapsto> t
                 \<lparr>tbl_rows := tbl_rows t @ [new_row t (vals @ python_defaults cs' vals)],
                  tbl_next_id :=
                    advance (tbl_columns t) (tbl_next_id t) (new_row t (vals @ python_defaults cs' vals))\<rparr>))))"
proof -
  from assms(1) obtain cs' where cs': "map_of (metadata lt) tn = Some cs'"
    and names: "map col_name cs' = map col_name cs"
    by (rule metadata_cases) (simp_all add: metadata_def metadata_column_names)
  show ?thesis
  proof (cases "set (map fst vals) \<subseteq> set (map col_name cs')")
    case False
    then show ?thesis by (simp add: insert_stmt_def cs')
  next
    case True
    have "set (map fst (vals @ python_defaults cs' vals)) \<subseteq> set (map col_name (tbl_columns t))"
      using True python_defaults_keys [of cs' vals] by (auto simp: assms(3) names [symmetric])
    then show ?thesis
      using True by (simp add: insert_stmt_def cs' insert_row_def assms(2))
  qed
qed

lemma foreign_keys_metadata:
  "foreign_keys (metadata clt) =
     [(''customer'', ''department_name'', ''department'', ''department_name''),
      (''course'', ''department_id'', ''department'', ''id''),
      (''vacancy'', ''department_id'', ''department'', ''id''),
      (''news'', ''department_id'', ''department'', ''id'')]"
  by (simp add: foreign_keys_def schema_defs)

lemma metadata_shape:
  assumes "map_of (metadata clt) tn = Some cs"
  shows "list_all (shape tn) cs"
  using assms by (rule metadata_cases) (simp_all add: shape_def schema_defs)

lemma metadata_one_reference:
  assumes "map_of (metadata clt) tn = Some cs"
  shows "length (filter (\<lambda>c. col_foreign_key c \<noteq> None) cs) \<le> 1"
  using assms by (rule metadata_cases) (simp_all add: schema_defs)

lemma metadata_identity:
  assumes "map_of (metadata clt) tn = Some cs"
  shows "filter (\<lambda>c. col_primary_key c \<and> col_autoincrement c) (map ddl cs) = [ddl (hd cs)] \<and>
         col_name (hd cs) = ''id'' \<and> hd cs \<in> set cs"
  using assms by (rule metadata_cases) (simp_all add: schema_defs)


lemma at_most_one:
  assumes "length (filter P xs) \<le> 1" "x \<in> set xs" "P x" "y \<in> set xs" "P y"
  shows "x = y"
proof -
  from assms(2-5) have "x \<in> set (filter P xs)" "y \<in> set (filter P xs)" by simp_all
  with assms(1) show ?thesis
    by (cases "filter P xs") (auto split: if_splits)
qed

lemma not_null_violations_empty:
  "not_null_violations cs r = [] \<longleftrightarrow>
     list_all (\<lambda>c. col_nullable c \<or> cell r (col_name c) \<noteq> Null) cs"
  by (induction cs) (auto simp: not_null_violations_def)

lemma unique_violations_empty:
  "unique_violations cs rs r = [] \<longleftrightarrow>
     list_all (\<lambda>c. \<not> (col_unique c \<or> col_primary_key c) \<or> cell r (col_name c) = Null \<or>
                   cell r (col_name c) \<notin> set (column_values rs (col_name c))) cs"
  by (induction cs) (auto simp: unique_violations_def)

lemma foreign_key_violations_empty:
  "foreign_key_violations db cs r = [] \<longleftrightarrow> list_all (\<lambda>c. \<not> dangling db c r) cs"
  by (induction cs) (auto simp: foreign_key_violations_def)

lemma ddl_fields [simp]:
  "col_type (ddl c) = col_type c" "col_nullable (ddl c) = col_nullable c"
  "col_unique (ddl c) = col_unique c" "col_primary_key (ddl c) = col_primary_key c"
  "col_autoincrement (ddl c) = col_autoincrement c"
  "col_server_default (ddl c) = col_server_default c"
  "col_foreign_key (ddl c) = col_foreign_key c"
  by (simp_all add: ddl_def)

lemma dangling_ddl:
  "dangling db (ddl c) r =
     (case col_foreign_key c of
        None \<Rightarrow> False
      | Some fk \<Rightarrow> cell r (col_name c) \<noteq> Null \<and> \<not> referenced db fk (cell r (col_name c)))"
  by (simp add: dangling_def split: option.splits)

subsection \<open>The identity generator\<close>

lemma below_mono: "below n v \<Longrightarrow> n \<le> n' \<Longrightarrow> below n' v"
  by (cases v) (simp_all add: below_def)

lemma id_ok_free: "id_ok t \<Longrightarrow> IntV (tbl_next_id t) \<notin> set (ids t)"
  by (auto simp: id_ok_def list_all_iff below_def)

lemma unique_violationD:
  "UniqueViolation n \<in> set (unique_violations cs rs r) \<Longrightarrow>
   cell r n \<noteq> Null \<and> cell r n \<in> set (column_values rs n)"
  by (auto simp: unique_violations_def split: if_splits)

lemma violations_unique:
  "UniqueViolation n \<in> set (violations db cs rs r) \<longleftrightarrow>
   UniqueViolation n \<in> set (unique_violations cs rs r)"
  by (auto simp: violations_def not_null_violations_def foreign_key_violations_def)

lemma insert_keeps_id_ok:
  assumes m: "map_of (metadata clt) tn = Some cs" and t: "db tn = Some t"
    and cols: "tbl_columns t = map ddl cs" and ok: "id_ok t"
  shows "(\<forall>db'. insert_stmt lt db tn vals = Inr db' \<longrightarrow>
           (\<exists>t' r. db' tn = Some t' \<and> tbl_columns t' = tbl_columns t \<and>
              tbl_rows t' = tbl_rows t @ [r] \<and>
              cell r ''id'' \<notin> set (ids t) \<and> id_ok t' \<and> tbl_next_id t \<le> tbl_next_id t' \<and>
              (''id'' \<notin> set (map fst vals) \<longrightarrow>
                 cell r ''id'' = IntV (tbl_next_id t) \<and> tbl_next_id t' = tbl_next_id t + 1))) \<and>
         (\<forall>vs. insert_stmt lt db tn vals = Inl (IntegrityError vs) \<longrightarrow>
            ''id'' \<notin> set (map fst vals) \<longrightarrow> UniqueViolation ''id'' \<notin> set vs)"
proof -
  define idc where "idc = hd cs"
  have idc: "idc \<in> set cs" "col_name idc = ''id''"
    and flt: "filter (\<lambda>c. col_primary_key c \<and> col_autoincrement c) (tbl_columns t) = [ddl idc]"
    using metadata_identity [OF m] by (simp_all add: idc_def cols)
  have sh: "shape tn idc"
    using metadata_shape [OF m] idc(1) by (simp add: list_all_iff)
  then have key: "col_primary_key idc" "col_autoincrement idc" "\<not> col_nullable idc"
    "col_server_default idc = None" "col_type idc = Integer"
    using idc(2) by (simp_all add: shape_def)
  have dt: "distinct (map col_name (tbl_columns t))"
    using metadata_distinct [OF m] by (simp add: cols)
  have in_t: "ddl idc \<in> set (tbl_columns t)"
    using idc(1) by (simp add: cols)
  have cell_id: "cell (new_row t params) ''id'' = stored_value (tbl_next_id t) params (ddl idc)"
    for params
    using cell_new_row [OF dt in_t, of params] idc(2) by simp
  have auto_id: "cell (new_row t (vals @ python_defaults cs' vals)) ''id'' = IntV (tbl_next_id t)"
    if "map_of (metadata lt) tn = Some cs'" "''id'' \<notin> set (map fst vals)" for cs'
  proof -
    have "map_of vals ''id'' = None" using that(2) by (simp add: map_of_eq_None_iff)
    moreover have "map_of (python_defaults cs' vals) ''id'' = None"
      using that(1) by (rule python_defaults_base) simp
    ultimately have "map_of (vals @ python_defaults cs' vals) ''id'' = None"
      by (simp add: map_add_def)
    then show ?thesis
      unfolding cell_id using key idc(2) by (simp add: stored_value_def map_add_def)
  qed
  have part1: "\<exists>t' r. db' tn = Some t' \<and> tbl_columns t' = tbl_columns t \<and>
              tbl_rows t' = tbl_rows t @ [r] \<and>
              cell r ''id'' \<notin> set (ids t) \<and> id_ok t' \<and> tbl_next_id t \<le> tbl_next_id t' \<and>
              (''id'' \<notin> set (map fst vals) \<longrightarrow>
                 cell r ''id'' = IntV (tbl_next_id t) \<and> tbl_next_id t' = tbl_next_id t + 1)"
    if ins: "insert_stmt lt db tn vals = Inr db'" for db'
  proof -
    from ins obtain cs' where cs': "map_of (metadata lt) tn = Some cs'"
      and row: "insert_row db tn (vals @ python_defaults cs' vals) = Inr db'"
      by (rule insert_stmt_Inr)
    define r where "r = new_row t (vals @ python_defaults cs' vals)"
    define t' where "t' = t\<lparr>tbl_rows := tbl_rows t @ [r],
        tbl_next_id := advance (tbl_columns t) (tbl_next_id t) r\<rparr>"
    from row t have wt: "well_typed (tbl_columns t) r"
      and nv: "violations db (tbl_columns t) (tbl_rows t) r = []"
      and db': "db' = db(tn \<mapsto> t')"
      by (auto simp: r_def t'_def elim!: insert_row_Inr)
    have "fits Integer (cell r ''id'')"
      using wt in_t key(5) idc(2) by (auto simp: well_typed_def list_all_iff)
    moreover have "cell r ''id'' \<noteq> Null"
      using nv in_t key(3) idc(2)
      by (auto simp: violations_def not_null_violations_empty list_all_iff)
    ultimately obtain k where k: "cell r ''id'' = IntV k"
      by (cases "cell r ''id''") simp_all
    have fresh: "cell r ''id'' \<notin> set (ids t)"
      using nv in_t key(1) idc(2) k
      by (auto simp: violations_def unique_violations_empty list_all_iff ids_def)
    have next': "tbl_next_id t' = max (tbl_next_id t) (k + 1)"
      using k idc(2) by (simp add: t'_def advance_def flt)
    have ids': "ids t' = ids t @ [IntV k]"
      using k by (simp add: ids_def t'_def column_values_def)
    have old: "below (tbl_next_id t') v" if "v \<in> set (ids t)" for v
    proof -
      from ok that have "below (tbl_next_id t) v" by (simp add: id_ok_def list_all_iff)
      then show ?thesis by (rule below_mono) (simp add: next')
    qed
    have "below (tbl_next_id t') (IntV k)" by (simp add: below_def next')
    with old have "id_ok t'"
      using ok fresh k by (simp add: id_ok_def ids' list_all_iff)
    moreover have "tbl_next_id t \<le> tbl_next_id t'" by (simp add: next')
    moreover have "cell r ''id'' = IntV (tbl_next_id t) \<and> tbl_next_id t' = tbl_next_id t + 1"
      if "''id'' \<notin> set (map fst vals)"
    proof -
      have "cell r ''id'' = IntV (tbl_next_id t)"
        unfolding r_def using cs' that by (rule auto_id)
      with k show ?thesis by (simp add: next')
    qed
    ultimately show ?thesis
      using fresh by (auto simp: db' t'_def)
  qed
  have part2: "UniqueViolation ''id'' \<notin> set vs"
    if err: "insert_stmt lt db tn vals = Inl (IntegrityError vs)"
      and noid: "''id'' \<notin> set (map fst vals)" for vs
  proof
    assume bad: "UniqueViolation ''id'' \<in> set vs"
    from insert_stmt_outcome [where db = db and lt = lt and vals = vals, OF m t cols] err
    obtain cs' where cs': "map_of (metadata lt) tn = Some cs'"
      and vs: "vs = violations db (tbl_columns t) (tbl_rows t) (new_row t (vals @ python_defaults cs' vals))"
      by (auto split: if_splits)
    from bad have "cell (new_row t (vals @ python_defaults cs' vals)) ''id''
        \<in> set (column_values (tbl_rows t) ''id'')"
      unfolding vs violations_unique by (auto dest: unique_violationD)
    then have "IntV (tbl_next_id t) \<in> set (ids t)"
      unfolding auto_id [OF cs' noid] by (simp add: ids_def)
    with id_ok_free [OF ok] show False by simp
  qed
  from part1 part2 show ?thesis by blast
qed

lemma update_rows_Inr_full:
  assumes "update_rows db tn rid params = Inr db'" "db tn = Some t"
  shows "set (''id'' # map fst params) \<subseteq> set (map col_name (tbl_columns t))"
    and "list_all (well_typed (tbl_columns t))
          (map (set_row (tbl_columns t) params) (filter (hit rid) (tbl_rows t)))"
    and "concat (map (violations db (tbl_columns t) (filter (\<lambda>r. \<not> hit rid r) (tbl_rows t)))
          (map (set_row (tbl_columns t) params) (filter (hit rid) (tbl_rows t)))) = []"
    and "db' = db(tn \<mapsto> t\<lparr>tbl_rows :=
         map (\<lambda>r. if hit rid r then set_row (tbl_columns t) params r else r) (tbl_rows t),
       tbl_next_id := foldl (advance (tbl_columns t)) (tbl_next_id t)
         (map (set_row (tbl_columns t) params) (filter (hit rid) (tbl_rows t)))\<rparr>)"
  using assms unfolding update_rows_def Let_def by (simp_all split: if_splits)

lemma advance_ge: "n \<le> advance cs n r"
  by (simp add: advance_def split: list.splits val.splits)

lemma foldl_advance_ge: "n \<le> foldl (advance cs) n rs"
proof (induction rs arbitrary: n)
  case Nil
  then show ?case by simp
next
  case (Cons r rs)
  have "n \<le> advance cs n r" by (rule advance_ge)
  also have "\<dots> \<le> foldl (advance cs) (advance cs n r) rs" by (rule Cons.IH)
  finally show ?case by simp
qed

lemma one_hit:
  assumes "distinct (map (\<lambda>r. cell r ''id'') rows)" "r0 \<in> set rows" "hit rid r0"
  obtains xs ys where "rows = xs @ r0 # ys" "filter (hit rid) xs = []" "filter (hit rid) ys = []"
proof -
  from assms(2) obtain xs ys where rows: "rows = xs @ r0 # ys" by (auto dest: split_list)
  have "\<not> hit rid r" if "r \<in> set xs \<union> set ys" for r
  proof
    assume "hit rid r"
    with assms(3) have same: "cell r ''id'' = cell r0 ''id''" by (simp add: hit_def)
    have "cell r0 ''id'' \<notin> (\<lambda>r. cell r ''id'') ` (set xs \<union> set ys)"
      using assms(1) by (auto simp: rows)
    moreover have "cell r ''id'' \<in> (\<lambda>r. cell r ''id'') ` (set xs \<union> set ys)"
      using that by (rule imageI)
    ultimately show False using same by simp
  qed
  then have "filter (hit rid) xs = []" "filter (hit rid) ys = []"
    by (auto simp: filter_empty_conv)
  with rows show ?thesis by (rule that)
qed

lemma distinct_replace:
  "distinct (as @ x # bs) \<Longrightarrow> y \<notin> set (as @ bs) \<Longrightarrow> distinct (as @ y # bs)"
  by auto

lemma update_keeps_id_ok:
  assumes m: "map_of (metadata clt) tn = Some cs" and t: "db tn = Some t"
    and cols: "tbl_columns t = map ddl cs" and ok: "id_ok t"
    and upd: "update_stmt lt now db tn rid assigns = Inr db'"
  shows "\<exists>t'. db' tn = Some t' \<and> tbl_columns t' = tbl_columns t \<and> id_ok t' \<and>
           tbl_next_id t \<le> tbl_next_id t'"
proof -
  from upd obtain cs' where
    ur: "update_rows db tn rid (assigns @ onupdate_values cs' now assigns) = Inr db'"
    by (rule update_stmt_Inr)
  define params where "params = assigns @ onupdate_values cs' now assigns"
  define cols_t where "cols_t = tbl_columns t"
  define changed where "changed = map (set_row cols_t params) (filter (hit rid) (tbl_rows t))"
  define kept where "kept = filter (\<lambda>r. \<not> hit rid r) (tbl_rows t)"
  define f where "f = (\<lambda>r. if hit rid r then set_row cols_t params r else r)"
  define t' where "t' = t\<lparr>tbl_rows := map f (tbl_rows t),
       tbl_next_id := foldl (advance cols_t) (tbl_next_id t) changed\<rparr>"
  note full = update_rows_Inr_full [OF ur [folded params_def] t]
  have names: "''id'' \<in> set (map col_name cols_t)"
    using full(1) by (simp add: cols_t_def)
  have wt: "list_all (well_typed cols_t) changed"
    using full(2) unfolding cols_t_def changed_def .
  have nv: "concat (map (violations db cols_t kept) changed) = []"
    using full(3) unfolding cols_t_def changed_def kept_def .
  have db': "db' = db(tn \<mapsto> t')"
    using full(4) unfolding cols_t_def changed_def t'_def f_def .
  define idc where "idc = hd cs"
  have idc: "idc \<in> set cs" "col_name idc = ''id''"
    and flt: "filter (\<lambda>c. col_primary_key c \<and> col_autoincrement c) cols_t = [ddl idc]"
    using metadata_identity [OF m] by (simp_all add: idc_def cols cols_t_def)
  have "shape tn idc"
    using metadata_shape [OF m] idc(1) by (simp add: list_all_iff)
  then have key: "col_primary_key idc" "\<not> col_nullable idc" "col_type idc = Integer"
    using idc(2) by (simp_all add: shape_def)
  have in_t: "ddl idc \<in> set cols_t"
    using idc(1) by (simp add: cols cols_t_def)
  have ge: "tbl_next_id t \<le> tbl_next_id t'"
    by (simp add: t'_def foldl_advance_ge)
  have cell_f: "cell (set_row cols_t params r) ''id'' =
      (case map_of params ''id'' of Some v \<Rightarrow> v | None \<Rightarrow> cell r ''id'')" for r
    using names by (rule cell_set_row)
  have "id_ok t'"
  proof (cases "filter (hit rid) (tbl_rows t) = [] \<or> map_of params ''id'' = None")
    case True
    have "cell (f r) ''id'' = cell r ''id''" if "r \<in> set (tbl_rows t)" for r
      using True that by (auto simp: f_def cell_f filter_empty_conv)
    then have "ids t' = ids t"
      by (simp add: ids_def column_values_def t'_def)
    with ok ge show ?thesis
      by (auto simp: id_ok_def list_all_iff intro: below_mono)
  next
    case False
    then obtain v where v: "map_of params ''id'' = Some v" by auto
    from False have "\<exists>r0 \<in> set (tbl_rows t). hit rid r0"
      by (auto simp: filter_empty_conv)
    then obtain r0 where r0: "r0 \<in> set (tbl_rows t)" "hit rid r0" by blast
    have "distinct (map (\<lambda>r. cell r ''id'') (tbl_rows t))"
      using ok by (simp add: id_ok_def ids_def column_values_def)
    from this r0 obtain xs ys where rows: "tbl_rows t = xs @ r0 # ys"
      and nohit: "filter (hit rid) xs = []" "filter (hit rid) ys = []"
      by (rule one_hit)
    define r1 where "r1 = set_row cols_t params r0"
    have ch: "changed = [r1]" and kp: "kept = xs @ ys"
      using nohit r0(2) by (simp_all add: changed_def kept_def rows r1_def filter_empty_conv)
    have keep: "f r = r" if "\<not> hit rid r" for r
      using that by (simp add: f_def)
    have fx: "map f xs = xs" "map f ys = ys"
      using nohit by (auto simp: filter_empty_conv intro!: map_idI keep)
    have fr0: "f r0 = r1"
      using r0(2) by (simp add: f_def r1_def)
    have rows': "tbl_rows t' = xs @ r1 # ys"
      by (simp add: t'_def rows fx fr0)
    have id1: "cell r1 ''id'' = v" by (simp add: r1_def cell_f v)
    have "fits Integer v"
      using wt in_t key(3) idc(2) id1 by (auto simp: ch well_typed_def list_all_iff)
    moreover have "v \<noteq> Null"
      using nv in_t key(2) idc(2) id1
      by (auto simp: ch violations_def not_null_violations_empty list_all_iff)
    ultimately obtain k where k: "v = IntV k" by (cases v) simp_all
    have fresh: "IntV k \<notin> set (column_values (xs @ ys) ''id'')"
      using nv in_t key(1) idc(2) id1 k
      by (auto simp: ch kp violations_def unique_violations_empty list_all_iff)
    have next': "tbl_next_id t' = max (tbl_next_id t) (k + 1)"
      using id1 k idc(2) by (simp add: t'_def ch advance_def flt)
    have ids': "ids t' = column_values xs ''id'' @ IntV k # column_values ys ''id''"
      using id1 k by (simp add: ids_def rows' column_values_def)
    have ids0: "ids t = column_values xs ''id'' @ cell r0 ''id'' # column_values ys ''id''"
      by (simp add: ids_def rows column_values_def)
    have "distinct (ids t)" using ok by (simp add: id_ok_def)
    moreover have "IntV k \<notin> set (column_values xs ''id'' @ column_values ys ''id'')"
      using fresh by (simp add: column_values_def)
    ultimately have "distinct (ids t')"
      unfolding ids' ids0 by (rule distinct_replace)
    moreover have "below (tbl_next_id t') u" if "u \<in> set (ids t')" for u
    proof (cases "u = IntV k")
      case True
      then show ?thesis by (simp add: below_def next')
    next
      case False
      with that have "u \<in> set (ids t)" by (auto simp: ids' ids0)
      with ok have "below (tbl_next_id t) u" by (simp add: id_ok_def list_all_iff)
      then show ?thesis using ge by (rule below_mono)
    qed
    ultimately show ?thesis by (simp add: id_ok_def list_all_iff)
  qed
  with ge show ?thesis by (simp add: db' t'_def cols_t_def)
qed

lemma identity_step:
  assumes m: "map_of (metadata clt) tn = Some cs" and t: "db tn = Some t"
    and cols: "tbl_columns t = map ddl cs" and ok: "id_ok t"
  shows "\<exists>t'. apply_statement lt db s tn = Some t' \<and> tbl_columns t' = map ddl cs \<and> id_ok t' \<and>
           tbl_next_id t \<le> tbl_next_id t'"
proof (cases s)
  case (InsertInto tn' vals)
  show ?thesis
  proof (cases "insert_stmt lt db tn' vals")
    case (Inl e)
    then show ?thesis using InsertInto t cols ok by simp
  next
    case (Inr db')
    show ?thesis
    proof (cases "tn' = tn")
      case True
      with insert_keeps_id_ok [where db = db and lt = lt and vals = vals, OF m t cols ok] Inr
      obtain t' where "db' tn = Some t'" "tbl_columns t' = tbl_columns t" "id_ok t'"
        "tbl_next_id t \<le> tbl_next_id t'" by blast
      then show ?thesis using InsertInto Inr cols by simp
    next
      case False
      then have "db' tn = db tn" using insert_stmt_frame [OF Inr] by simp
      then show ?thesis using InsertInto Inr t cols ok by simp
    qed
  qed
next
  case (UpdateWhere now tn' rid assigns)
  show ?thesis
  proof (cases "update_stmt lt now db tn' rid assigns")
    case (Inl e)
    then show ?thesis using UpdateWhere t cols ok by simp
  next
    case (Inr db')
    show ?thesis
    proof (cases "tn' = tn")
      case True
      with update_keeps_id_ok [where db = db, OF m t cols ok] Inr
      obtain t' where "db' tn = Some t'" "tbl_columns t' = tbl_columns t" "id_ok t'"
        "tbl_next_id t \<le> tbl_next_id t'" by blast
      then show ?thesis using UpdateWhere Inr cols by simp
    next
      case False
      from Inr obtain cs' where
        "update_rows db tn' rid (assigns @ onupdate_values cs' now assigns) = Inr db'"
        by (rule update_stmt_Inr)
      then have "db' tn = db tn"
        using False by (auto elim!: update_rows_Inr)
      then show ?thesis using UpdateWhere Inr t cols ok by simp
    qed
  qed
qed

lemma run_append: "run lt db (ss @ ss') = run lt (run lt db ss) ss'"
  by (induction ss arbitrary: db) simp_all

lemma identity_run:
  assumes m: "map_of (metadata clt) tn = Some cs" and t: "db tn = Some t"
    and cols: "tbl_columns t = map ddl cs" and ok: "id_ok t"
  shows "\<exists>t'. run lt db ss tn = Some t' \<and> tbl_columns t' = map ddl cs \<and> id_ok t' \<and>
           tbl_next_id t \<le> tbl_next_id t'"
  using t cols ok
proof (induction ss arbitrary: db t)
  case Nil
  then show ?case by simp
next
  case (Cons s ss)
  from identity_step [where db = db and lt = lt and s = s, OF m Cons.prems]
  obtain t1 where t1: "apply_statement lt db s tn = Some t1" "tbl_columns t1 = map ddl cs"
    "id_ok t1" and le: "tbl_next_id t \<le> tbl_next_id t1" by blast
  from Cons.IH [where db = "apply_statement lt db s", OF t1] obtain t' where
    "run lt (apply_statement lt db s) ss tn = Some t'" "tbl_columns t' = map ddl cs" "id_ok t'"
    "tbl_next_id t1 \<le> tbl_next_id t'" by blast
  with le show ?case by auto
qed

subsection \<open>Timestamps along a run\<close>

lemma metadata_stamps:
  assumes "map_of (metadata clt) tn = Some cs"
  shows "list_all (\<lambda>c.
           (col_name c = ''created_at'' \<longrightarrow> col_server_default c = Some (TimeV (created_now clt))) \<and>
           (col_name c = ''updated_at'' \<longrightarrow> col_server_default c = Some (TimeV (updated_now clt)))) cs"
  using assms by (rule metadata_cases) (simp_all add: schema_defs)

text \<open>A row inserted without timestamps carries the two defaults of its table.\<close>

lemma default_stamp_of:
  assumes m: "map_of (metadata clt) tn = Some cs" and cols: "tbl_columns t = map ddl cs"
    and absent: "n \<notin> set (map fst vals)" "map_of (python_defaults cs' vals) n = None"
    and c: "c \<in> set cs" "col_name c = n" "col_server_default c = Some d"
  shows "cell (new_row t (vals @ python_defaults cs' vals)) n = d"
proof -
  define params where "params = vals @ python_defaults cs' vals"
  have dt: "distinct (map col_name (tbl_columns t))"
    using metadata_distinct [OF m] by (simp add: cols)
  have "map_of vals n = None"
    using absent(1) by (simp add: map_of_eq_None_iff)
  then have none: "map_of params n = None"
    using absent(2) by (simp add: params_def map_add_def)
  have "ddl c \<in> set (tbl_columns t)"
    using c(1) by (simp add: cols)
  from cell_new_row [OF dt this, of params]
  have "cell (new_row t params) n = stored_value (tbl_next_id t) params (ddl c)"
    using c(2) by simp
  also have "\<dots> = d"
    using none c(2,3) by (simp add: stored_value_def)
  finally show ?thesis by (simp add: params_def)
qed

lemma default_stamps:
  assumes m: "map_of (metadata clt) tn = Some cs" and cols: "tbl_columns t = map ddl cs"
    and cs': "map_of (metadata lt) tn = Some cs'" and free: "stamp_free vals"
  shows "cell (new_row t (vals @ python_defaults cs' vals)) ''created_at'' = TimeV (created_now clt)"
    and "cell (new_row t (vals @ python_defaults cs' vals)) ''updated_at'' = TimeV (updated_now clt)"
proof -
  have names: "''created_at'' \<in> set (map col_name cs)" "''updated_at'' \<in> set (map col_name cs)"
    using base_columns [OF m] by simp_all
  have free': "''created_at'' \<notin> set (map fst vals)" "''updated_at'' \<notin> set (map fst vals)"
    using free by (simp_all add: stamp_free_def)
  have pd: "map_of (python_defaults cs' vals) ''created_at'' = None"
    "map_of (python_defaults cs' vals) ''updated_at'' = None"
    by (rule python_defaults_base [OF cs'], simp)+
  have sh: "\<forall>c\<in>set cs.
           (col_name c = ''created_at'' \<longrightarrow> col_server_default c = Some (TimeV (created_now clt))) \<and>
           (col_name c = ''updated_at'' \<longrightarrow> col_server_default c = Some (TimeV (updated_now clt)))"
    using metadata_stamps [OF m] by (simp add: list_all_iff)
  from names(1) obtain c1 where c1: "''created_at'' = col_name c1" "c1 \<in> set cs"
    unfolding set_map ..
  with sh have d1: "col_server_default c1 = Some (TimeV (created_now clt))" by metis
  from names(2) obtain c2 where c2: "''updated_at'' = col_name c2" "c2 \<in> set cs"
    unfolding set_map ..
  with sh have d2: "col_server_default c2 = Some (TimeV (updated_now clt))" by metis
  show "cell (new_row t (vals @ python_defaults cs' vals)) ''created_at'' = TimeV (created_now clt)"
    using default_stamp_of [OF m cols free'(1) pd(1) c1(2) c1(1) [symmetric] d1] .
  show "cell (new_row t (vals @ python_defaults cs' vals)) ''updated_at'' = TimeV (updated_now clt)"
    using default_stamp_of [OF m cols free'(2) pd(2) c2(2) c2(1) [symmetric] d2] .
qed

text \<open>What an UPDATE that leaves \<^verbatim>\<open>updated_at\<close> to the module does to the rows of its table.\<close>

lemma update_stmt_rows:
  assumes upd: "update_stmt lt now db tn rid assigns = Inr db'" and t: "db tn = Some t"
    and nou: "''updated_at'' \<notin> set (map fst assigns)"
  shows "\<exists>t'. db' tn = Some t' \<and> tbl_columns t' = tbl_columns t \<and>
           tbl_rows t' =
             map (\<lambda>r. if hit rid r
                       then set_row (tbl_columns t) (assigns @ [(''updated_at'', TimeV now)]) r
                       else r) (tbl_rows t)"
proof -
  from upd obtain cs' where cs': "map_of (metadata lt) tn = Some cs'"
    and ur: "update_rows db tn rid (assigns @ onupdate_values cs' now assigns) = Inr db'"
    by (rule update_stmt_Inr)
  have "assigns @ onupdate_values cs' now assigns = assigns @ [(''updated_at'', TimeV now)]"
    using onupdate_values_updated_at [OF cs' nou] by simp
  with ur have "update_rows db tn rid (assigns @ [(''updated_at'', TimeV now)]) = Inr db'"
    by simp
  then show ?thesis
  proof (rule update_rows_Inr)
    fix t0
    assume "db tn = Some t0"
      and db': "db' = db(tn \<mapsto> t0\<lparr>tbl_rows :=
         map (\<lambda>r. if hit rid r
                   then set_row (tbl_columns t0) (assigns @ [(''updated_at'', TimeV now)]) r
                   else r) (tbl_rows t0),
       tbl_next_id := foldl (advance (tbl_columns t0)) (tbl_next_id t0)
         (map (set_row (tbl_columns t0) (assigns @ [(''updated_at'', TimeV now)]))
            (filter (hit rid) (tbl_rows t0)))\<rparr>)"
    with t have "t0 = t" by simp
    with db' show ?thesis by simp
  qed
qed

lemma set_row_stamps:
  assumes "''created_at'' \<in> set (map col_name cols)" "''updated_at'' \<in> set (map col_name cols)"
    and nou: "''updated_at'' \<notin> set (map fst assigns)"
  shows "cell (set_row cols (assigns @ [(''updated_at'', TimeV now)]) r) ''updated_at'' = TimeV now"
    and "''created_at'' \<notin> set (map fst assigns) \<Longrightarrow>
         cell (set_row cols (assigns @ [(''updated_at'', TimeV now)]) r) ''created_at'' =
           cell r ''created_at''"
proof -
  define params where "params = assigns @ [(''updated_at'', TimeV now)]"
  have "map_of assigns ''updated_at'' = None"
    using nou by (simp add: map_of_eq_None_iff)
  then have u: "map_of params ''updated_at'' = Some (TimeV now)"
    by (simp add: params_def map_add_def)
  show "cell (set_row cols (assigns @ [(''updated_at'', TimeV now)]) r) ''updated_at'' = TimeV now"
    unfolding params_def [symmetric] cell_set_row [OF assms(2)] u by simp
  assume "''created_at'' \<notin> set (map fst assigns)"
  then have "map_of assigns ''created_at'' = None"
    by (simp add: map_of_eq_None_iff)
  then have c: "map_of params ''created_at'' = None"
    by (simp add: params_def map_add_def)
  show "cell (set_row cols (assigns @ [(''updated_at'', TimeV now)]) r) ''created_at'' =
           cell r ''created_at''"
    unfolding params_def [symmetric] cell_set_row [OF assms(1)] c by simp
qed

lemma stamped_before_step:
  assumes m: "map_of (metadata clt) tn = Some cs" and t: "db tn = Some t"
    and cols: "tbl_columns t = map ddl cs"
    and inv: "list_all (stamped_before n) (tbl_rows t)"
    and s: "unstamped s" "clock_before n s"
    and load: "created_now clt < n" "updated_now clt < n"
  shows "\<exists>t'. apply_statement lt db s tn = Some t' \<and> tbl_columns t' = map ddl cs \<and>
           list_all (stamped_before n) (tbl_rows t')"
proof (cases s)
  case (InsertInto tn' vals)
  show ?thesis
  proof (cases "insert_stmt lt db tn' vals")
    case (Inl e)
    then show ?thesis using InsertInto t cols inv by simp
  next
    case (Inr db')
    show ?thesis
    proof (cases "tn' = tn")
      case False
      then have "db' tn = db tn" using insert_stmt_frame [OF Inr] by simp
      then show ?thesis using InsertInto Inr t cols inv by simp
    next
      case True
      from Inr obtain cs' where cs': "map_of (metadata lt) tn = Some cs'"
        and row: "insert_row db tn (vals @ python_defaults cs' vals) = Inr db'"
        unfolding True by (rule insert_stmt_Inr)
      define r where "r = new_row t (vals @ python_defaults cs' vals)"
      from row t have db': "db' = db(tn \<mapsto> t\<lparr>tbl_rows := tbl_rows t @ [r],
          tbl_next_id := advance (tbl_columns t) (tbl_next_id t) r\<rparr>)"
        by (auto simp: r_def elim!: insert_row_Inr)
      have "stamp_free vals" using s(1) InsertInto by simp
      from default_stamps [OF m cols cs' this]
      have "stamped_before n r"
        using load by (simp add: stamped_before_def r_def)
      then show ?thesis
        using InsertInto Inr True inv cols by (simp add: db')
    qed
  qed
next
  case (UpdateWhere now tn' rid assigns)
  show ?thesis
  proof (cases "update_stmt lt now db tn' rid assigns")
    case (Inl e)
    then show ?thesis using UpdateWhere t cols inv by simp
  next
    case (Inr db')
    show ?thesis
    proof (cases "tn' = tn")
      case False
      from Inr obtain cs' where
        "update_rows db tn' rid (assigns @ onupdate_values cs' now assigns) = Inr db'"
        by (rule update_stmt_Inr)
      then have "db' tn = db tn"
        using False by (auto elim!: update_rows_Inr)
      then show ?thesis using UpdateWhere Inr t cols inv by simp
    next
      case True
      have free: "''updated_at'' \<notin> set (map fst assigns)" "''created_at'' \<notin> set (map fst assigns)"
        and before: "now < n"
        using s UpdateWhere by (simp_all add: stamp_free_def)
      define f where "f = (\<lambda>r. if hit rid r
          then set_row (tbl_columns t) (assigns @ [(''updated_at'', TimeV now)]) r else r)"
      from update_stmt_rows [OF Inr [unfolded True] t free(1)]
      obtain t' where t': "db' tn = Some t'" "tbl_columns t' = tbl_columns t"
        "tbl_rows t' = map f (tbl_rows t)"
        by (auto simp: f_def)
      have names: "''created_at'' \<in> set (map col_name (tbl_columns t))"
        "''updated_at'' \<in> set (map col_name (tbl_columns t))"
        using base_columns [OF m] cols by simp_all
      have "stamped_before n (f r)" if "stamped_before n r" for r
        using that before set_row_stamps [OF names free(1), of now r] free(2)
        by (simp add: f_def stamped_before_def)
      then have "list_all (stamped_before n) (map f (tbl_rows t))"
        using inv by (simp add: list_all_iff)
      then show ?thesis
        using UpdateWhere Inr True t' cols by simp
    qed
  qed
qed

lemma stamped_before_run:
  assumes m: "map_of (metadata clt) tn = Some cs" and t: "db tn = Some t"
    and cols: "tbl_columns t = map ddl cs"
    and inv: "list_all (stamped_before n) (tbl_rows t)"
    and ss: "list_all unstamped ss" "list_all (clock_before n) ss"
    and load: "created_now clt < n" "updated_now clt < n"
  shows "\<exists>t'. run lt db ss tn = Some t' \<and> tbl_columns t' = map ddl cs \<and>
           list_all (stamped_before n) (tbl_rows t')"
  using t cols inv ss
proof (induction ss arbitrary: db t)
  case Nil
  then show ?case by simp
next
  case (Cons s ss)
  from Cons.prems(4,5) have s: "unstamped s" "clock_before n s"
    and rest: "list_all unstamped ss" "list_all (clock_before n) ss" by simp_all
  from stamped_before_step [where db = db and lt = lt, OF m Cons.prems(1-3) s load]
  obtain t1 where t1: "apply_statement lt db s tn = Some t1" "tbl_columns t1 = map ddl cs"
    "list_all (stamped_before n) (tbl_rows t1)" by blast
  from Cons.IH [where db = "apply_statement lt db s", OF t1 rest]
  show ?case by simp
qed

section \<open>What the seeding script leaves behind\<close>

lemma bootstrap_ok: "fst (recreate_database lt None db) = None"
  by (simp add: script_defs schema_defs engine_defs)

lemma bootstrap_departments:
  "query (snd (recreate_database lt None db)) ''department'' =
     Inr (map (\<lambda>x. [(''id'', fst x), (''created_at'', TimeV (created_now lt)),
                    (''updated_at'', TimeV (updated_now lt)), (''department_name'', snd x)])
            [(IntV 1, StrV ''Python''), (IntV 2, StrV ''System Administrator''),
             (IntV 3, StrV ''Javascript''), (IntV 4, StrV ''Java'')])"
  by (simp add: query_def script_defs schema_defs engine_defs)

lemma bootstrap_courses:
  "query (snd (recreate_database lt None db)) ''course'' =
     Inr [[(''id'', IntV 1), (''created_at'', TimeV (created_now lt)),
           (''updated_at'', TimeV (updated_now lt)), (''department_id'', IntV 1),
           (''department_info'', StrV python_text)]]"
  by (simp add: query_def script_defs schema_defs engine_defs)

lemma bootstrap_table_department:
  "snd (recreate_database lt None db) ''department'' =
     Some \<lparr>tbl_columns = map ddl (Department lt),
           tbl_rows = map (\<lambda>x. [(''id'', fst x), (''created_at'', TimeV (created_now lt)),
                    (''updated_at'', TimeV (updated_now lt)), (''department_name'', snd x)])
            [(IntV 1, StrV ''Python''), (IntV 2, StrV ''System Administrator''),
             (IntV 3, StrV ''Javascript''), (IntV 4, StrV ''Java'')],
           tbl_next_id = 5\<rparr>"
  by (simp add: script_defs schema_defs engine_defs)

lemma bootstrap_table_empty:
  "snd (recreate_database lt None db) ''reception'' = Some (create_table (Reception lt))"
  "snd (recreate_database lt None db) ''customer'' = Some (create_table (Customer lt))"
  "snd (recreate_database lt None db) ''vacancy'' = Some (create_table (Vacancy lt))"
  "snd (recreate_database lt None db) ''news'' = Some (create_table (News lt))"
  by (simp_all add: script_defs schema_defs engine_defs)

lemma bootstrap_table_course:
  "snd (recreate_database lt None db) ''course'' =
     Some \<lparr>tbl_columns = map ddl (Course lt),
           tbl_rows = [[(''id'', IntV 1), (''created_at'', TimeV (created_now lt)),
           (''updated_at'', TimeV (updated_now lt)), (''department_id'', IntV 1),
           (''department_info'', StrV python_text)]],
           tbl_next_id = 2\<rparr>"
  by (simp add: script_defs schema_defs engine_defs)

lemma metadata_names:
  "map fst (metadata lt) = [''reception'', ''department'', ''customer'', ''course'', ''vacancy'', ''news'']"
  by (simp add: metadata_def)

lemma insert_stmt_named:
  "insert_stmt lt db tn vals = Inr db' \<Longrightarrow> tn \<in> set (map fst (metadata lt))"
  by (auto simp: insert_stmt_def split: option.splits dest!: map_of_SomeD intro: rev_image_eqI)

lemma add_all_frame:
  "add_all lt db tn xs = Inr db' \<Longrightarrow> tn' \<noteq> tn \<Longrightarrow> db' tn' = db tn'"
proof (induction xs arbitrary: db)
  case Nil
  then show ?case by simp
next
  case (Cons x xs)
  then show ?case
    by (auto split: sum.splits dest: insert_stmt_frame)
qed

lemma create_drop_frame:
  "tn \<notin> set (map fst meta) \<Longrightarrow> create_all meta (drop_all meta db) tn = db tn"
  by (cases "db tn") (auto simp: create_all_def drop_all_def map_of_eq_None_iff[THEN iffD2])

lemma schema_stage_frame:
  "schema_stage lt fault db = Inr db' \<Longrightarrow> tn \<notin> set (map fst (metadata lt)) \<Longrightarrow> db' tn = db tn"
  by (auto simp: schema_stage_def create_drop_frame split: if_splits)

lemma department_stage_frame:
  "department_stage lt fault db = Inr db' \<Longrightarrow> tn \<noteq> ''department'' \<Longrightarrow> db' tn = db tn"
  by (auto simp: department_stage_def simp del: add_all.simps split: if_splits
      dest: add_all_frame)

lemma course_stage_frame:
  "course_stage lt fault db = Inr db' \<Longrightarrow> tn \<noteq> ''course'' \<Longrightarrow> db' tn = db tn"
  by (auto simp: course_stage_def execute_def python_info_def split: if_splits
      dest: insert_stmt_frame)

lemma recreate_database_frame:
  assumes "tn \<notin> set (map fst (metadata lt))"
  shows "snd (recreate_database lt fault db) tn = db tn"
proof -
  have names: "tn \<noteq> ''department''" "tn \<noteq> ''course''"
    using assms by (auto simp: metadata_names)
  show ?thesis
  proof (cases "schema_stage lt fault db")
    case (Inl e)
    then show ?thesis by (simp add: recreate_database_def)
  next
    case s1: (Inr db1)
    have f1: "db1 tn = db tn" using schema_stage_frame [OF s1 assms] .
    show ?thesis
    proof (cases "department_stage lt fault db1")
      case (Inl e)
      then show ?thesis using s1 f1 by (simp add: recreate_database_def)
    next
      case s2: (Inr db2)
      have f2: "db2 tn = db1 tn" using department_stage_frame [OF s2 names(1)] .
      show ?thesis
      proof (cases "course_stage lt fault db2")
        case (Inl e)
        then show ?thesis using s1 s2 f1 f2 by (simp add: recreate_database_def)
      next
        case s3: (Inr db3)
        have "db3 tn = db2 tn" using course_stage_frame [OF s3 names(2)] .
        then show ?thesis using s1 s2 s3 f1 f2 by (simp add: recreate_database_def)
      qed
    qed
  qed
qed

lemma drop_all_recreate_database:
  "drop_all (metadata lt') (snd (recreate_database lt fault db)) = drop_all (metadata lt') db"
proof
  fix tn
  show "drop_all (metadata lt') (snd (recreate_database lt fault db)) tn = drop_all (metadata lt') db tn"
  proof (cases "tn \<in> set (map fst (metadata lt'))")
    case True
    then show ?thesis by (simp add: drop_all_def)
  next
    case False
    then have "tn \<notin> set (map fst (metadata lt))" by (simp add: metadata_names)
    then show ?thesis using False by (simp add: drop_all_def recreate_database_frame)
  qed
qed

lemma recreate_database_forgets:
  "recreate_database lt' None (snd (recreate_database lt fault db)) = recreate_database lt' None db"
proof -
  have "schema_stage lt' None (snd (recreate_database lt fault db)) = schema_stage lt' None db"
    by (simp add: schema_stage_def drop_all_recreate_database)
  moreover have "fst (recreate_database lt' None (snd (recreate_database lt fault db))) = None"
     "fst (recreate_database lt' None db) = None" by (rule bootstrap_ok)+
  ultimately show ?thesis
    by (auto simp: recreate_database_def split: sum.splits)
qed

lemma untimed_named:
  assumes "tn \<in> set (map fst (metadata lt))"
  shows "untimed (snd (recreate_database lt' None db)) tn = untimed (snd (recreate_database lt None db)) tn"
proof -
  from assms consider "tn = ''reception''" | "tn = ''department''" | "tn = ''customer''"
    | "tn = ''course''" | "tn = ''vacancy''" | "tn = ''news''"
    unfolding metadata_names by fastforce
  then show ?thesis
  proof cases
    case 1 then show ?thesis
      by (simp add: untimed_def untimed_table_def untimed_column_def untimed_row_def script_defs schema_defs engine_defs)
  next
    case 2 then show ?thesis
      by (simp add: untimed_def untimed_table_def untimed_column_def untimed_row_def script_defs schema_defs engine_defs)
  next
    case 3 then show ?thesis
      by (simp add: untimed_def untimed_table_def untimed_column_def untimed_row_def script_defs schema_defs engine_defs)
  next
    case 4 then show ?thesis
      by (simp add: untimed_def untimed_table_def untimed_column_def untimed_row_def script_defs schema_defs engine_defs)
  next
    case 5 then show ?thesis
      by (simp add: untimed_def untimed_table_def untimed_column_def untimed_row_def script_defs schema_defs engine_defs)
  next
    case 6 then show ?thesis
      by (simp add: untimed_def untimed_table_def untimed_column_def untimed_row_def script_defs schema_defs engine_defs)
  qed
qed

lemma untimed_recreate_database:
  "untimed (snd (recreate_database lt' None db)) = untimed (snd (recreate_database lt None db))"
proof
  fix tn
  show "untimed (snd (recreate_database lt' None db)) tn = untimed (snd (recreate_database lt None db)) tn"
  proof (cases "tn \<in> set (map fst (metadata lt))")
    case True
    then show ?thesis by (rule untimed_named)
  next
    case False
    moreover from False have "tn \<notin> set (map fst (metadata lt'))" by (simp add: metadata_names)
    ultimately show ?thesis by (simp add: untimed_def recreate_database_frame)
  qed
qed

text \<open>
  C2. After the script has run, from any database and whatever the load-time clock
  readings, the script has raised nothing and the department table holds exactly four
  rows, whose identities and names are 1 Python, 2 System Administrator, 3 Javascript
  and 4 Java.
\<close>

theorem departments_after_bootstrap:
  "fst (recreate_database lt None db) = None \<and>
   (\<exists>rs. query (snd (recreate_database lt None db)) ''department'' = Inr rs \<and>
      map (\<lambda>r. (cell r ''id'', cell r ''department_name'')) rs =
        [(IntV 1, StrV ''Python''), (IntV 2, StrV ''System Administrator''),
         (IntV 3, StrV ''Javascript''), (IntV 4, StrV ''Java'')])"
  by (simp add: bootstrap_ok bootstrap_departments cell_def)

text \<open>
  C1. The script builds two INSERT statements for the course table and executes the
  first only. After it has run the course table holds one row, not two: the row of
  \<^verbatim>\<open>python_info\<close>, with identity 1, department 1 and the first description. The
  statement built for department 2 leaves no row.
\<close>

theorem courses_after_bootstrap:
  "\<exists>rs. query (snd (recreate_database lt None db)) ''course'' = Inr rs \<and>
     length rs = 1 \<and>
     map (\<lambda>r. (cell r ''id'', cell r ''department_id'', cell r ''department_info'')) rs =
       [(IntV 1, IntV 1, StrV python_text)] \<and>
     python_text \<noteq> [] \<and>
     cell sys_admin ''id'' \<notin> set (map (\<lambda>r. cell r ''department_id'') rs)"
proof -
  have "python_text \<noteq> []" by (simp add: python_text_def)
  then show ?thesis by (simp add: bootstrap_courses cell_def sys_admin_def)
qed

text \<open>
  C9. The script is not atomic. When the store cannot be reached in the third
  transaction, the one that inserts the course, the script raises the error and the
  database it leaves is the one the department transaction committed: four departments
  and no course.
\<close>

theorem course_stage_failure_keeps_departments:
  "fst (recreate_database lt (Some CourseStage) db) = Some OperationalError \<and>
   (\<exists>rs. query (snd (recreate_database lt (Some CourseStage) db)) ''department'' = Inr rs \<and>
      map (\<lambda>r. (cell r ''id'', cell r ''department_name'')) rs =
        [(IntV 1, StrV ''Python''), (IntV 2, StrV ''System Administrator''),
         (IntV 3, StrV ''Javascript''), (IntV 4, StrV ''Java'')]) \<and>
   query (snd (recreate_database lt (Some CourseStage) db)) ''course'' = Inr [] \<and>
   (\<exists>db2. department_stage lt None (create_all (metadata lt) (drop_all (metadata lt) db)) = Inr db2 \<and>
      snd (recreate_database lt (Some CourseStage) db) = db2)"
  by (simp add: query_def script_defs schema_defs engine_defs)

text \<open>
  C8, in the form that holds. A run of the script forgets what the database held
  before: two runs in a row leave what the second run alone leaves. With the same
  clock readings at both imports the second run leaves exactly what the first left;
  with different readings the two results agree up to their timestamps.
\<close>

theorem recreate_database_twice:
  "recreate_database lt' None (snd (recreate_database lt None db)) = recreate_database lt' None db \<and>
   recreate_database lt None (snd (recreate_database lt None db)) = recreate_database lt None db \<and>
   untimed (snd (recreate_database lt' None (snd (recreate_database lt None db)))) =
     untimed (snd (recreate_database lt None db))"
  by (simp add: recreate_database_forgets untimed_recreate_database [of lt' db lt])

text \<open>
  C8, with equality of the two final states, fails: the rows the second run writes
  carry the second import's clock readings, so the state after the second run is not
  the state after the first.
\<close>

theorem recreate_database_twice_counterexample:
  "snd (recreate_database \<lparr>created_now = 2000, updated_now = 2001\<rparr> None
          (snd (recreate_database \<lparr>created_now = 1000, updated_now = 1001\<rparr> None Map.empty)))
   \<noteq> snd (recreate_database \<lparr>created_now = 1000, updated_now = 1001\<rparr> None Map.empty)"
proof
  assume "snd (recreate_database \<lparr>created_now = 2000, updated_now = 2001\<rparr> None
          (snd (recreate_database \<lparr>created_now = 1000, updated_now = 1001\<rparr> None Map.empty)))
   = snd (recreate_database \<lparr>created_now = 1000, updated_now = 1001\<rparr> None Map.empty)"
  then have "query (snd (recreate_database \<lparr>created_now = 2000, updated_now = 2001\<rparr> None Map.empty)) ''course''
    = query (snd (recreate_database \<lparr>created_now = 1000, updated_now = 1001\<rparr> None Map.empty)) ''course''"
    by (simp add: recreate_database_forgets)
  then show False
    by (simp add: bootstrap_courses)
qed

section \<open>Timestamps\<close>

text \<open>
  C3. A row inserted without a value for \<^verbatim>\<open>created_at\<close> takes the column's server default.
  The default is the string of the clock reading taken when \<^verbatim>\<open>models.py\<close> was imported
  by the process that created the table, so that reading, and not the time of the
  insertion, is what the row holds: whenever a table made from the module's metadata
  (by a process whose load-time readings were \<open>clt\<close>) accepts such a row, the row's
  \<^verbatim>\<open>created_at\<close> is \<open>created_now clt\<close>, for every kind of entity.
\<close>

theorem created_at_is_load_time:
  assumes "map_of (metadata clt) tn = Some cs" "db tn = Some t" "tbl_columns t = map ddl cs"
    and "''created_at'' \<notin> set (map fst vals)"
    and "insert_stmt lt db tn vals = Inr db'"
  shows "\<exists>t' r. db' tn = Some t' \<and> tbl_rows t' = tbl_rows t @ [r] \<and>
           cell r ''created_at'' = TimeV (created_now clt)"
proof -
  from assms(5) obtain cs' where cs': "map_of (metadata lt) tn = Some cs'"
    and ins: "insert_row db tn (vals @ python_defaults cs' vals) = Inr db'"
    by (rule insert_stmt_Inr)
  let ?params = "vals @ python_defaults cs' vals"
  let ?c = "(Column ''created_at'' TIMESTAMP)\<lparr>col_nullable := False, col_server_default := Some (TimeV (created_now clt))\<rparr>"
  from ins assms(2) have db': "db' = db(tn \<mapsto> t\<lparr>tbl_rows := tbl_rows t @ [new_row t ?params],
       tbl_next_id := advance (tbl_columns t) (tbl_next_id t) (new_row t ?params)\<rparr>)"
    by (auto elim!: insert_row_Inr)
  have d: "distinct (map col_name (tbl_columns t))"
    using metadata_distinct [OF assms(1)] assms(3) by simp
  have c: "?c \<in> set (tbl_columns t)"
    using created_at_column [OF assms(1)] assms(3) by simp
  have "map_of vals ''created_at'' = None"
    using assms(4) by (simp add: map_of_eq_None_iff)
  then have none: "map_of ?params ''created_at'' = None"
    using python_defaults_base [OF cs', of "''created_at''" vals] by (simp add: map_add_def)
  have "cell (new_row t ?params) (col_name ?c) = stored_value (tbl_next_id t) ?params ?c"
    using d c by (rule cell_new_row)
  then have "cell (new_row t ?params) ''created_at'' = TimeV (created_now clt)"
    using none by (simp add: stored_value_def Column_def map_add_def)
  then show ?thesis using db' by simp
qed

text \<open>
  The same at a concrete input: the tables are created by a process that read the clock
  at 1000, and a later process inserts a \<^verbatim>\<open>Reception\<close> row; the row is stamped 1000.
\<close>

theorem created_at_is_load_time_witness:
  "\<exists>db' t' r.
     insert_stmt \<lparr>created_now = 2000, updated_now = 2001\<rparr>
       (snd (recreate_database \<lparr>created_now = 1000, updated_now = 1001\<rparr> None Map.empty))
       ''reception'' [] = Inr db' \<and>
     db' ''reception'' = Some t' \<and> tbl_rows t' = [r] \<and> cell r ''created_at'' = TimeV 1000"
proof -
  let ?clt = "\<lparr>created_now = 1000, updated_now = 1001\<rparr>"
  let ?lt = "\<lparr>created_now = 2000, updated_now = 2001\<rparr>"
  let ?db = "snd (recreate_database ?clt None Map.empty)"
  have m: "map_of (metadata ?clt) ''reception'' = Some (Reception ?clt)"
    by (simp add: metadata_def)
  have t: "?db ''reception'' = Some (create_table (Reception ?clt))"
    by (rule bootstrap_table_empty)
  have c: "tbl_columns (create_table (Reception ?clt)) = map ddl (Reception ?clt)"
    by (simp add: create_table_def)
  have k: "''created_at'' \<notin> set (map fst ([] :: row))" by simp
  have "\<exists>db'. insert_stmt ?lt ?db ''reception'' [] = Inr db'"
    unfolding insert_stmt_def insert_row_def t
    by (simp add: schema_defs engine_defs)
  then obtain db' where i: "insert_stmt ?lt ?db ''reception'' [] = Inr db'" ..
  from created_at_is_load_time [where db = "?db" and lt = ?lt, OF m t c k i] show ?thesis
    using i by (auto simp: create_table_def)
qed

text \<open>
  C7, in the form that holds. An UPDATE of an existing row that does not assign
  \<^verbatim>\<open>updated_at\<close> sets the row's \<^verbatim>\<open>updated_at\<close> to the reading of the clock when the statement
  is executed, and one that does not assign \<^verbatim>\<open>created_at\<close> either leaves \<^verbatim>\<open>created_at\<close> as it
  was; this holds whatever the row held. The new \<^verbatim>\<open>updated_at\<close> is moreover strictly
  later than the row's \<^verbatim>\<open>created_at\<close> and than its previous \<^verbatim>\<open>updated_at\<close> when the row's
  timestamps were written by the module alone and the clock has moved on: the table
  is as \<^verbatim>\<open>create_all\<close> made it but for the statements executed since, none of which named
  either timestamp, and the clock reads later at this update than it did when the
  table's creator imported the module and at every earlier update.
\<close>

theorem update_sets_updated_at:
  assumes m: "map_of (metadata clt) tn = Some cs" and t: "db tn = Some t"
    and cols: "tbl_columns t = map ddl cs"
    and i: "i < length (tbl_rows t)" "cell (tbl_rows t ! i) ''id'' = IntV rid"
    and nou: "''updated_at'' \<notin> set (map fst assigns)"
    and upd: "update_stmt lt now db tn rid assigns = Inr db'"
  shows "\<exists>t'. db' tn = Some t' \<and> length (tbl_rows t') = length (tbl_rows t) \<and>
           cell (tbl_rows t' ! i) ''updated_at'' = TimeV now \<and>
           (''created_at'' \<notin> set (map fst assigns) \<longrightarrow>
              cell (tbl_rows t' ! i) ''created_at'' = cell (tbl_rows t ! i) ''created_at'' \<and>
              (db = run lt db0 ss \<and> db0 tn = Some (create_table cs) \<and>
               list_all unstamped ss \<and> list_all (clock_before now) ss \<and>
               created_now clt < now \<and> updated_now clt < now \<longrightarrow>
                 earlier (cell (tbl_rows t' ! i) ''created_at'')
                         (cell (tbl_rows t' ! i) ''updated_at'') \<and>
                 earlier (cell (tbl_rows t ! i) ''updated_at'')
                         (cell (tbl_rows t' ! i) ''updated_at'')))"
proof -
  define r where "r = tbl_rows t ! i"
  define r' where "r' = set_row (tbl_columns t) (assigns @ [(''updated_at'', TimeV now)]) r"
  from update_stmt_rows [OF upd t nou] i
  obtain t' where t': "db' tn = Some t'" "length (tbl_rows t') = length (tbl_rows t)"
    "tbl_rows t' ! i = r'"
    by (auto simp: hit_def r_def r'_def)
  have names: "''created_at'' \<in> set (map col_name (tbl_columns t))"
    "''updated_at'' \<in> set (map col_name (tbl_columns t))"
    using base_columns [OF m] cols by simp_all
  note stamps = set_row_stamps [OF names nou, of now r, folded r'_def]
  have order: "earlier (cell r' ''created_at'') (cell r' ''updated_at'') \<and>
               earlier (cell r ''updated_at'') (cell r' ''updated_at'')"
    if noc: "''created_at'' \<notin> set (map fst assigns)"
      and run: "db = run lt db0 ss" "db0 tn = Some (create_table cs)"
      and ss: "list_all unstamped ss" "list_all (clock_before now) ss"
      and load: "created_now clt < now" "updated_now clt < now"
  proof -
    have "tbl_columns (create_table cs) = map ddl cs"
      "list_all (stamped_before now) (tbl_rows (create_table cs))"
      by (simp_all add: create_table_def)
    from stamped_before_run [where db = db0 and lt = lt, OF m run(2) this ss load] t
    have "list_all (stamped_before now) (tbl_rows t)"
      by (auto simp: run(1))
    then have "stamped_before now r"
      using i(1) by (simp add: list_all_length r_def)
    then show ?thesis
      using stamps(1) stamps(2) [OF noc] by (simp add: stamped_before_def)
  qed
  show ?thesis
    using t' stamps order by (auto simp: r_def)
qed

text \<open>
  A department is inserted, renamed when the clock reads 3000 and renamed again at
  5000: its \<^verbatim>\<open>updated_at\<close> goes from 3000 to 5000, past its \<^verbatim>\<open>created_at\<close> of 1000.
\<close>

theorem update_sets_updated_at_witness:
  "\<exists>db' t'.
     update_stmt \<lparr>created_now = 2000, updated_now = 2001\<rparr> 5000
       (run \<lparr>created_now = 2000, updated_now = 2001\<rparr>
          (create_all (metadata \<lparr>created_now = 1000, updated_now = 1001\<rparr>) Map.empty)
          [InsertInto ''department'' python, InsertInto ''department'' sys_admin,
           UpdateWhere 3000 ''department'' 2 [(''department_name'', StrV ''Operations'')]])
       ''department'' 2 [(''department_name'', StrV ''Ops'')] = Inr db' \<and>
     db' ''department'' = Some t' \<and> length (tbl_rows t') = 2 \<and>
     cell (tbl_rows t' ! 1) ''department_name'' = StrV ''Ops'' \<and>
     cell (tbl_rows t' ! 1) ''updated_at'' = TimeV 5000 \<and>
     cell (tbl_rows t' ! 1) ''created_at'' = TimeV 1000 \<and>
     earlier (cell (tbl_rows t' ! 1) ''created_at'') (cell (tbl_rows t' ! 1) ''updated_at'') \<and>
     earlier (TimeV 3000) (cell (tbl_rows t' ! 1) ''updated_at'')"
proof -
  let ?clt = "\<lparr>created_now = 1000, updated_now = 1001\<rparr>"
  let ?new = "\<lparr>created_now = 2000, updated_now = 2001\<rparr>"
  let ?dbz = "create_all (metadata ?clt) Map.empty"
  let ?ss = "[InsertInto ''department'' python, InsertInto ''department'' sys_admin,
           UpdateWhere 3000 ''department'' 2 [(''department_name'', StrV ''Operations'')]]"
  let ?assigns = "[(''department_name'', StrV ''Ops'')]"
  define t where "t = \<lparr>tbl_columns = map ddl (Department ?clt),
      tbl_rows = map (\<lambda>x. [(''id'', fst x), (''created_at'', TimeV 1000),
                    (''updated_at'', fst (snd x)), (''department_name'', snd (snd x))])
            [(IntV 1, TimeV 1001, StrV ''Python''), (IntV 2, TimeV 3000, StrV ''Operations'')],
      tbl_next_id = 3\<rparr>"
  have m: "map_of (metadata ?clt) ''department'' = Some (Department ?clt)"
    by (simp add: metadata_def)
  have z: "?dbz ''department'' = Some (create_table (Department ?clt))"
    by (simp add: create_all_def metadata_def)
  have i1: "insert_stmt ?new ?dbz ''department'' python =
      Inr (?dbz(''department'' \<mapsto> \<lparr>tbl_columns = map ddl (Department ?clt),
        tbl_rows = [[(''id'', IntV 1), (''created_at'', TimeV 1000), (''updated_at'', TimeV 1001),
                     (''department_name'', StrV ''Python'')]], tbl_next_id = 2\<rparr>))"
    unfolding insert_stmt_def insert_row_def z
    by (simp add: python_def schema_defs new_row_def stored_value_def python_defaults_def
        well_typed_def violations_def not_null_violations_def unique_violations_def
        foreign_key_violations_def dangling_def column_values_def cell_def advance_def
        create_table_def)
  have run: "run ?new ?dbz ?ss ''department'' = Some t"
    unfolding run.simps apply_statement.simps i1
    by (simp add: sys_admin_def insert_stmt_def insert_row_def schema_defs new_row_def
        stored_value_def python_defaults_def well_typed_def violations_def
        not_null_violations_def unique_violations_def foreign_key_violations_def
        dangling_def column_values_def cell_def advance_def t_def
        update_stmt_def update_rows_def set_row_def hit_def onupdate_values_def Let_def)
  have cols: "tbl_columns t = map ddl (Department ?clt)" by (simp add: t_def)
  have i: "1 < length (tbl_rows t)" and h: "cell (tbl_rows t ! 1) ''id'' = IntV 2"
    and old: "cell (tbl_rows t ! 1) ''updated_at'' = TimeV 3000"
      "cell (tbl_rows t ! 1) ''created_at'' = TimeV 1000"
    by (simp_all add: t_def cell_def nth_Cons')
  have nou: "''updated_at'' \<notin> set (map fst ?assigns)"
    and noc: "''created_at'' \<notin> set (map fst ?assigns)" by simp_all
  have "\<exists>db'. update_stmt ?new 5000 (run ?new ?dbz ?ss) ''department'' 2 ?assigns = Inr db'"
    unfolding update_stmt_def update_rows_def run
    by (simp add: t_def schema_defs violations_def not_null_violations_def
        unique_violations_def foreign_key_violations_def dangling_def column_values_def
        well_typed_def cell_def set_row_def hit_def onupdate_values_def Let_def advance_def)
  then obtain db' where
    u: "update_stmt ?new 5000 (run ?new ?dbz ?ss) ''department'' 2 ?assigns = Inr db'" ..
  have history: "run ?new ?dbz ?ss = run ?new ?dbz ?ss \<and>
      ?dbz ''department'' = Some (create_table (Department ?clt)) \<and>
      list_all unstamped ?ss \<and> list_all (clock_before 5000) ?ss \<and>
      created_now ?clt < 5000 \<and> updated_now ?clt < 5000"
    by (simp add: z stamp_free_def python_def sys_admin_def)
  from update_sets_updated_at [where db = "run ?new ?dbz ?ss" and lt = ?new and ?db0.0 = "?dbz"
      and ss = ?ss, OF m run cols i h nou u]
  obtain t' where t': "db' ''department'' = Some t'" "length (tbl_rows t') = length (tbl_rows t)"
    "cell (tbl_rows t' ! 1) ''updated_at'' = TimeV 5000"
    "cell (tbl_rows t' ! 1) ''created_at'' = cell (tbl_rows t ! 1) ''created_at''"
    "earlier (cell (tbl_rows t' ! 1) ''created_at'') (cell (tbl_rows t' ! 1) ''updated_at'')"
    "earlier (cell (tbl_rows t ! 1) ''updated_at'') (cell (tbl_rows t' ! 1) ''updated_at'')"
    using noc history by blast
  have name: "cell (tbl_rows (the (db' ''department'')) ! 1) ''department_name'' = StrV ''Ops''"
    using u unfolding update_stmt_def update_rows_def run
    by (auto simp: t_def schema_defs violations_def not_null_violations_def
        unique_violations_def foreign_key_violations_def dangling_def column_values_def
        well_typed_def cell_def set_row_def hit_def onupdate_values_def Let_def advance_def
        nth_Cons')
  have c1: "cell (tbl_rows t' ! 1) ''created_at'' = TimeV 1000"
    using t'(4) old(2) by simp
  have e2: "earlier (TimeV 3000) (cell (tbl_rows t' ! 1) ''updated_at'')"
    using t'(6) old(1) by simp
  have len: "length (tbl_rows t') = 2"
    using t'(2) by (simp add: t_def)
  have nm: "cell (tbl_rows t' ! 1) ''department_name'' = StrV ''Ops''"
    using name t'(1) by simp
  from u t'(1) len nm t'(3) c1 t'(5) e2 show ?thesis by blast
qed

text \<open>
  C7, for every row and every update, fails in two ways. A department inserted with a
  \<^verbatim>\<open>created_at\<close> of 9000 and renamed when the clock reads 5000 ends with \<^verbatim>\<open>updated_at\<close> 5000,
  which is not later than its \<^verbatim>\<open>created_at\<close>. And \<^verbatim>\<open>datetime.datetime.now()\<close> is local time
  without a zone, so a process may read less than the table's creator did at its
  import: the seeded department 2, stamped 1000 and 1001, renamed by a process whose
  clock reads 500, ends with \<^verbatim>\<open>updated_at\<close> 500, later than neither.
\<close>

theorem updated_at_counterexample:
  "(\<exists>db1 db2 rs.
      insert_stmt \<lparr>created_now = 1000, updated_now = 1001\<rparr>
        (snd (recreate_database \<lparr>created_now = 1000, updated_now = 1001\<rparr> None Map.empty))
        ''department''
        [(''id'', IntV 5), (''department_name'', StrV ''Go''), (''created_at'', TimeV 9000)]
        = Inr db1 \<and>
      update_stmt \<lparr>created_now = 1000, updated_now = 1001\<rparr> 5000 db1
        ''department'' 5 [(''department_name'', StrV ''Golang'')] = Inr db2 \<and>
      query db2 ''department'' = Inr rs \<and>
      cell (rs ! 4) ''id'' = IntV 5 \<and>
      cell (rs ! 4) ''department_name'' = StrV ''Golang'' \<and>
      cell (rs ! 4) ''created_at'' = TimeV 9000 \<and>
      cell (rs ! 4) ''updated_at'' = TimeV 5000 \<and>
      \<not> earlier (cell (rs ! 4) ''created_at'') (cell (rs ! 4) ''updated_at'')) \<and>
   (\<exists>db2 rs.
      update_stmt \<lparr>created_now = 1000, updated_now = 1001\<rparr> 500
        (snd (recreate_database \<lparr>created_now = 1000, updated_now = 1001\<rparr> None Map.empty))
        ''department'' 2 [(''department_name'', StrV ''Operations'')] = Inr db2 \<and>
      query db2 ''department'' = Inr rs \<and>
      cell (rs ! 1) ''id'' = IntV 2 \<and>
      cell (rs ! 1) ''created_at'' = TimeV 1000 \<and>
      cell (rs ! 1) ''updated_at'' = TimeV 500 \<and>
      \<not> earlier (cell (rs ! 1) ''created_at'') (cell (rs ! 1) ''updated_at'') \<and>
      \<not> earlier (TimeV 1001) (cell (rs ! 1) ''updated_at''))"
proof
  let ?clt = "\<lparr>created_now = 1000, updated_now = 1001\<rparr>"
  let ?db = "snd (recreate_database ?clt None Map.empty)"
  let ?t1 = "\<lparr>tbl_columns = map ddl (Department ?clt),
           tbl_rows = map (\<lambda>x. [(''id'', fst x), (''created_at'', fst (snd x)),
                    (''updated_at'', TimeV 1001), (''department_name'', snd (snd x))])
            [(IntV 1, TimeV 1000, StrV ''Python''), (IntV 2, TimeV 1000, StrV ''System Administrator''),
             (IntV 3, TimeV 1000, StrV ''Javascript''), (IntV 4, TimeV 1000, StrV ''Java''),
             (IntV 5, TimeV 9000, StrV ''Go'')],
           tbl_next_id = 6\<rparr>"
  have i: "insert_stmt ?clt ?db ''department''
      [(''id'', IntV 5), (''department_name'', StrV ''Go''), (''created_at'', TimeV 9000)]
      = Inr (?db(''department'' \<mapsto> ?t1))"
    unfolding insert_stmt_def insert_row_def bootstrap_table_department
    by (simp add: schema_defs new_row_def stored_value_def python_defaults_def
        well_typed_def violations_def not_null_violations_def unique_violations_def
        foreign_key_violations_def dangling_def column_values_def cell_def advance_def)
  have "\<exists>db2 rs. update_stmt ?clt 5000 (?db(''department'' \<mapsto> ?t1)) ''department'' 5
       [(''department_name'', StrV ''Golang'')] = Inr db2 \<and>
     query db2 ''department'' = Inr rs \<and>
     cell (rs ! 4) ''id'' = IntV 5 \<and>
     cell (rs ! 4) ''department_name'' = StrV ''Golang'' \<and>
     cell (rs ! 4) ''created_at'' = TimeV 9000 \<and>
     cell (rs ! 4) ''updated_at'' = TimeV 5000 \<and>
     \<not> earlier (cell (rs ! 4) ''created_at'') (cell (rs ! 4) ''updated_at'')"
    unfolding update_stmt_def update_rows_def
    by (simp add: schema_defs violations_def not_null_violations_def query_def
        unique_violations_def foreign_key_violations_def dangling_def column_values_def
        well_typed_def cell_def set_row_def hit_def onupdate_values_def nth_Cons'
        Let_def advance_def)
  with i show "\<exists>db1 db2 rs.
      insert_stmt ?clt ?db ''department''
        [(''id'', IntV 5), (''department_name'', StrV ''Go''), (''created_at'', TimeV 9000)]
        = Inr db1 \<and>
      update_stmt ?clt 5000 db1
        ''department'' 5 [(''department_name'', StrV ''Golang'')] = Inr db2 \<and>
      query db2 ''department'' = Inr rs \<and>
      cell (rs ! 4) ''id'' = IntV 5 \<and>
      cell (rs ! 4) ''department_name'' = StrV ''Golang'' \<and>
      cell (rs ! 4) ''created_at'' = TimeV 9000 \<and>
      cell (rs ! 4) ''updated_at'' = TimeV 5000 \<and>
      \<not> earlier (cell (rs ! 4) ''created_at'') (cell (rs ! 4) ''updated_at'')"
    by blast
  show "\<exists>db2 rs.
      update_stmt ?clt 500 ?db
        ''department'' 2 [(''department_name'', StrV ''Operations'')] = Inr db2 \<and>
      query db2 ''department'' = Inr rs \<and>
      cell (rs ! 1) ''id'' = IntV 2 \<and>
      cell (rs ! 1) ''created_at'' = TimeV 1000 \<and>
      cell (rs ! 1) ''updated_at'' = TimeV 500 \<and>
      \<not> earlier (cell (rs ! 1) ''created_at'') (cell (rs ! 1) ''updated_at'') \<and>
      \<not> earlier (TimeV 1001) (cell (rs ! 1) ''updated_at'')"
    unfolding update_stmt_def update_rows_def bootstrap_table_department
    by (simp add: schema_defs violations_def not_null_violations_def query_def
        unique_violations_def foreign_key_violations_def dangling_def column_values_def
        well_typed_def cell_def set_row_def hit_def onupdate_values_def nth_Cons'
        Let_def advance_def)
qed

section \<open>Constraints\<close>

text \<open>
  C5. In a department table created from the module's metadata that holds a row named
  \<open>n\<close>, an INSERT of a department named \<open>n\<close> never succeeds. Unless SQLAlchemy or the
  store refuses the statement before any constraint is looked at (it names an unknown
  column, or carries a value of the wrong type), the store raises an integrity error,
  and the uniqueness of \<^verbatim>\<open>department_name\<close> is among the constraints violated. A
  statement that fails returns no new database: the table is as it was.
\<close>

theorem duplicate_department_name_rejected:
  assumes "db ''department'' = Some t" "tbl_columns t = map ddl (Department clt)"
    and "r \<in> set (tbl_rows t)" "cell r ''department_name'' = StrV n"
    and "map_of vals ''department_name'' = Some (StrV n)"
  shows "insert_stmt lt db ''department'' vals = Inl CompileError \<or>
         insert_stmt lt db ''department'' vals = Inl DataError \<or>
         (\<exists>vs. insert_stmt lt db ''department'' vals = Inl (IntegrityError vs) \<and>
               UniqueViolation ''department_name'' \<in> set vs)"
proof -
  have m: "map_of (metadata clt) ''department'' = Some (Department clt)"
    by (simp add: metadata_def)
  define c where "c = ddl ((Column ''department_name'' String)\<lparr>col_nullable := False, col_unique := True\<rparr>)"
  have c: "c \<in> set (tbl_columns t)" "col_name c = ''department_name''" "col_unique c"
    by (simp_all add: c_def assms(2) Department_def ddl_def Column_def)
  have d: "distinct (map col_name (tbl_columns t))"
    using metadata_distinct [OF m] by (simp add: assms(2))
  have dup: "UniqueViolation ''department_name'' \<in>
      set (violations db (tbl_columns t) (tbl_rows t) (new_row t (vals @ extra)))" for extra
  proof -
    have "stored_value (tbl_next_id t) (vals @ extra) c = StrV n"
      using assms(5) c(2) by (simp add: stored_value_given map_of_params)
    then have v: "cell (new_row t (vals @ extra)) (col_name c) = StrV n"
      using cell_new_row [OF d c(1)] by simp
    have "StrV n \<in> set (column_values (tbl_rows t) (col_name c))"
      using assms(3,4) c(2) by (force simp: column_values_def)
    with v have "UniqueViolation (col_name c) \<in>
        set (unique_violations (tbl_columns t) (tbl_rows t) (new_row t (vals @ extra)))"
      using c by (intro unique_violationI) simp_all
    then show ?thesis by (simp add: violations_def c(2))
  qed
  from insert_stmt_outcome [where db = db and lt = lt and vals = vals, OF m assms(1,2)]
  show ?thesis
  proof (elim disjE exE conjE)
    fix cs'
    assume "insert_stmt lt db ''department'' vals =
      (if violations db (tbl_columns t) (tbl_rows t) (new_row t (vals @ python_defaults cs' vals)) \<noteq> []
       then Inl (IntegrityError (violations db (tbl_columns t) (tbl_rows t) (new_row t (vals @ python_defaults cs' vals))))
       else Inr (db(''department'' \<mapsto> t
                 \<lparr>tbl_rows := tbl_rows t @ [new_row t (vals @ python_defaults cs' vals)],
                  tbl_next_id :=
                    advance (tbl_columns t) (tbl_next_id t) (new_row t (vals @ python_defaults cs' vals))\<rparr>)))"
    moreover from dup [of "python_defaults cs' vals"]
    have "violations db (tbl_columns t) (tbl_rows t) (new_row t (vals @ python_defaults cs' vals)) \<noteq> []"
      by auto
    ultimately show ?thesis using dup [of "python_defaults cs' vals"] by simp
  qed simp_all
qed


text \<open>The seeded database refuses a second department named Python.\<close>

theorem duplicate_department_name_rejected_witness:
  "insert_stmt \<lparr>created_now = 2000, updated_now = 2001\<rparr>
     (snd (recreate_database \<lparr>created_now = 1000, updated_now = 1001\<rparr> None Map.empty))
     ''department'' [(''department_name'', StrV ''Python'')]
   = Inl (IntegrityError [UniqueViolation ''department_name''])"
proof -
  let ?clt = "\<lparr>created_now = 1000, updated_now = 1001\<rparr>"
  let ?new = "\<lparr>created_now = 2000, updated_now = 2001\<rparr>"
  let ?db = "snd (recreate_database ?clt None Map.empty)"
  let ?vals = "[(''department_name'', StrV ''Python'')]"
  define t where "t = the (?db ''department'')"
  have t: "?db ''department'' = Some t"
    by (simp add: t_def bootstrap_table_department)
  have rows: "tbl_rows t = map (\<lambda>x. [(''id'', fst x), (''created_at'', TimeV 1000),
                    (''updated_at'', TimeV 1001), (''department_name'', snd x)])
            [(IntV 1, StrV ''Python''), (IntV 2, StrV ''System Administrator''),
             (IntV 3, StrV ''Javascript''), (IntV 4, StrV ''Java'')]"
    and c: "tbl_columns t = map ddl (Department ?clt)" and n: "tbl_next_id t = 5"
    by (simp_all add: t_def bootstrap_table_department)
  have r: "[(''id'', IntV 1), (''created_at'', TimeV 1000), (''updated_at'', TimeV 1001),
            (''department_name'', StrV ''Python'')] \<in> set (tbl_rows t)"
    by (simp add: rows)
  have k: "cell [(''id'', IntV 1), (''created_at'', TimeV 1000), (''updated_at'', TimeV 1001),
            (''department_name'', StrV ''Python'')] ''department_name'' = StrV ''Python''"
    by (simp add: cell_def)
  have v: "map_of ?vals ''department_name'' = Some (StrV ''Python'')" by simp
  have no: "insert_stmt ?new ?db ''department'' ?vals \<noteq> Inl CompileError"
    "insert_stmt ?new ?db ''department'' ?vals \<noteq> Inl DataError"
    "\<And>vs. insert_stmt ?new ?db ''department'' ?vals = Inl (IntegrityError vs) \<Longrightarrow>
       vs = [UniqueViolation ''department_name'']"
    unfolding insert_stmt_def insert_row_def t
    by (simp_all add: rows c n schema_defs new_row_def stored_value_def python_defaults_def
        well_typed_def violations_def not_null_violations_def unique_violations_def
        foreign_key_violations_def dangling_def column_values_def cell_def)
  from duplicate_department_name_rejected [where db = "?db" and lt = ?new, OF t c r k v]
  show ?thesis using no by auto
qed

text \<open>
  C6. The foreign keys of the module are the department references of customer,
  course, vacancy and news. In a table created from the module's metadata, an INSERT
  that gives such a column a value which is not \<^verbatim>\<open>NULL\<close> and which no row of the department
  table carries in the referenced column never succeeds: unless the statement is
  refused before any constraint is looked at, the store raises an integrity error and
  the foreign key of that column is among the constraints violated.
\<close>

theorem dangling_reference_rejected:
  assumes "map_of (metadata clt) tn = Some cs" "db tn = Some t" "tbl_columns t = map ddl cs"
    and "c \<in> set cs" "col_foreign_key c = Some fk"
    and "map_of vals (col_name c) = Some v" "v \<noteq> Null" "\<not> referenced db fk v"
  shows "foreign_keys (metadata clt) =
           [(''customer'', ''department_name'', ''department'', ''department_name''),
            (''course'', ''department_id'', ''department'', ''id''),
            (''vacancy'', ''department_id'', ''department'', ''id''),
            (''news'', ''department_id'', ''department'', ''id'')] \<and>
         (insert_stmt lt db tn vals = Inl CompileError \<or>
          insert_stmt lt db tn vals = Inl DataError \<or>
          (\<exists>vs. insert_stmt lt db tn vals = Inl (IntegrityError vs) \<and>
                ForeignKeyViolation (col_name c) \<in> set vs))"
proof -
  have c: "ddl c \<in> set (tbl_columns t)" "col_foreign_key (ddl c) = Some fk"
    using assms(3,4,5) by (simp_all add: ddl_def)
  have d: "distinct (map col_name (tbl_columns t))"
    using metadata_distinct [OF assms(1)] by (simp add: assms(3))
  have bad: "ForeignKeyViolation (col_name c) \<in>
      set (violations db (tbl_columns t) (tbl_rows t) (new_row t (vals @ extra)))" for extra
  proof -
    have "stored_value (tbl_next_id t) (vals @ extra) (ddl c) = v"
      using assms(6) by (simp add: stored_value_given map_of_params)
    then have "cell (new_row t (vals @ extra)) (col_name (ddl c)) = v"
      using cell_new_row [OF d c(1)] by simp
    then have "dangling db (ddl c) (new_row t (vals @ extra))"
      using c(2) assms(7,8) by (simp add: dangling_def)
    with c(1) have "ForeignKeyViolation (col_name (ddl c)) \<in>
        set (foreign_key_violations db (tbl_columns t) (new_row t (vals @ extra)))"
      by (rule foreign_key_violationI)
    then show ?thesis by (simp add: violations_def)
  qed
  have "insert_stmt lt db tn vals = Inl CompileError \<or>
        insert_stmt lt db tn vals = Inl DataError \<or>
        (\<exists>vs. insert_stmt lt db tn vals = Inl (IntegrityError vs) \<and>
              ForeignKeyViolation (col_name c) \<in> set vs)"
    using insert_stmt_outcome [where db = db and lt = lt and vals = vals, OF assms(1,2,3)]
  proof (elim disjE exE conjE)
    fix cs'
    assume "insert_stmt lt db tn vals =
      (if violations db (tbl_columns t) (tbl_rows t) (new_row t (vals @ python_defaults cs' vals)) \<noteq> []
       then Inl (IntegrityError (violations db (tbl_columns t) (tbl_rows t) (new_row t (vals @ python_defaults cs' vals))))
       else Inr (db(tn \<mapsto> t
                 \<lparr>tbl_rows := tbl_rows t @ [new_row t (vals @ python_defaults cs' vals)],
                  tbl_next_id :=
                    advance (tbl_columns t) (tbl_next_id t) (new_row t (vals @ python_defaults cs' vals))\<rparr>)))"
    moreover from bad [of "python_defaults cs' vals"]
    have "violations db (tbl_columns t) (tbl_rows t) (new_row t (vals @ python_defaults cs' vals)) \<noteq> []"
      by auto
    ultimately show ?thesis using bad [of "python_defaults cs' vals"] by simp
  qed simp_all
  then show ?thesis by (simp add: foreign_keys_metadata)
qed

text \<open>The seeded database refuses a course of department 9.\<close>

theorem dangling_reference_rejected_witness:
  "insert_stmt \<lparr>created_now = 2000, updated_now = 2001\<rparr>
     (snd (recreate_database \<lparr>created_now = 1000, updated_now = 1001\<rparr> None Map.empty))
     ''course'' [(''department_info'', StrV ''Go in four months''), (''department_id'', IntV 9)]
   = Inl (IntegrityError [ForeignKeyViolation ''department_id''])"
proof -
  let ?clt = "\<lparr>created_now = 1000, updated_now = 1001\<rparr>"
  let ?new = "\<lparr>created_now = 2000, updated_now = 2001\<rparr>"
  let ?db = "snd (recreate_database ?clt None Map.empty)"
  let ?vals = "[(''department_info'', StrV ''Go in four months''), (''department_id'', IntV 9)]"
  let ?c = "(Column ''department_id'' Integer)\<lparr>col_foreign_key := Some (''department'', ''id'')\<rparr>"
  define t where "t = the (?db ''course'')"
  have t: "?db ''course'' = Some t"
    by (simp add: t_def bootstrap_table_course)
  have rows: "tbl_rows t = [[(''id'', IntV 1), (''created_at'', TimeV 1000),
           (''updated_at'', TimeV 1001), (''department_id'', IntV 1),
           (''department_info'', StrV python_text)]]"
    and c: "tbl_columns t = map ddl (Course ?clt)" and n: "tbl_next_id t = 2"
    by (simp_all add: t_def bootstrap_table_course)
  have m: "map_of (metadata ?clt) ''course'' = Some (Course ?clt)"
    by (simp add: metadata_def)
  have cin: "?c \<in> set (Course ?clt)" and fk: "col_foreign_key ?c = Some (''department'', ''id'')"
    by (simp_all add: Course_def)
  have v: "map_of ?vals (col_name ?c) = Some (IntV 9)" "IntV 9 \<noteq> Null"
    by (simp_all add: Column_def)
  have nr: "\<not> referenced ?db (''department'', ''id'') (IntV 9)"
    by (simp add: referenced_def bootstrap_table_department column_values_def cell_def)
  have no: "insert_stmt ?new ?db ''course'' ?vals \<noteq> Inl CompileError"
    "insert_stmt ?new ?db ''course'' ?vals \<noteq> Inl DataError"
    "\<And>vs. insert_stmt ?new ?db ''course'' ?vals = Inl (IntegrityError vs) \<Longrightarrow>
       vs = [ForeignKeyViolation ''department_id'']"
    unfolding insert_stmt_def insert_row_def t
    by (simp_all add: rows c n schema_defs new_row_def stored_value_def python_defaults_def
        well_typed_def violations_def not_null_violations_def unique_violations_def
        foreign_key_violations_def dangling_def column_values_def cell_def referenced_def
        bootstrap_table_department)
  from dangling_reference_rejected [where db = "?db" and lt = ?new, OF m t c cin fk v nr]
  show ?thesis using no by auto
qed

text \<open>
  C10. A column that refers to a department is declared without \<^verbatim>\<open>nullable=False\<close>, so it
  is nullable, and the store accepts a row that leaves it out or gives it \<^verbatim>\<open>NULL\<close>: in a
  table created from the module's metadata, an INSERT that names only columns of the
  table, leaves the identity to the generator (whose next value the table does not
  hold yet), gives the reference no value, and says something acceptable about every
  other column succeeds, and the new row's reference is \<^verbatim>\<open>NULL\<close>.
\<close>

theorem null_reference_accepted:
  assumes m: "map_of (metadata clt) tn = Some cs" and t: "db tn = Some t"
    and cols: "tbl_columns t = map ddl cs"
    and c: "c \<in> set cs" "col_foreign_key c \<noteq> None"
    and keys: "set (map fst vals) \<subseteq> set (map col_name cs)"
    and null: "map_of vals (col_name c) = None \<or> map_of vals (col_name c) = Some Null"
    and noid: "''id'' \<notin> set (map fst vals)"
    and free: "IntV (tbl_next_id t) \<notin> set (ids t)"
    and rest: "list_all (\<lambda>c'. col_name c' = col_name c \<or> col_name c' = ''id'' \<or> acceptable c' vals) cs"
  shows "col_nullable c \<and>
         (\<exists>db' t' r. insert_stmt lt db tn vals = Inr db' \<and> db' tn = Some t' \<and>
            tbl_rows t' = tbl_rows t @ [r] \<and> cell r (col_name c) = Null)"
proof -
  have sh: "shape tn c'" if "c' \<in> set cs" for c'
    using metadata_shape [OF m] that by (simp add: list_all_iff)
  have shc: "col_nullable c" "col_server_default c = None" "\<not> col_unique c"
    "tn \<noteq> ''reception''" "tn \<noteq> ''department''" "\<not> col_primary_key c" "col_name c \<noteq> ''id''"
    using sh [OF c(1)] c(2) by (auto simp: shape_def)
  have d: "distinct (map col_name cs)" by (rule metadata_distinct [OF m])
  then have dt: "distinct (map col_name (tbl_columns t))" by (simp add: cols)
  from m obtain cs' where cs': "map_of (metadata lt) tn = Some cs'"
    and names: "map col_name cs' = map col_name cs"
    by (rule metadata_cases) (simp_all add: metadata_def metadata_column_names)
  have pd: "python_defaults cs' vals = []"
    using cs' shc(4) by (rule python_defaults_other)
  define r where "r = new_row t vals"
  have cellr: "cell r (col_name c') = stored_value (tbl_next_id t) vals (ddl c')"
    if "c' \<in> set cs" for c'
    using cell_new_row [OF dt, of "ddl c'" vals] that by (simp add: cols r_def)
  have noid': "map_of vals ''id'' = None"
    using noid by (simp add: map_of_eq_None_iff)
  have sv_null: "stored_value (tbl_next_id t) vals (ddl c) = Null"
    using null shc by (auto simp: stored_value_def)
  have col: "fits (col_type c') (cell r (col_name c')) \<and>
             (col_nullable c' \<or> cell r (col_name c') \<noteq> Null) \<and>
             (\<not> (col_unique c' \<or> col_primary_key c') \<or> cell r (col_name c') = Null \<or>
                cell r (col_name c') \<notin> set (column_values (tbl_rows t) (col_name c'))) \<and>
             \<not> dangling db (ddl c') r"
    if c': "c' \<in> set cs" for c'
  proof -
    have e: "cell r (col_name c') = stored_value (tbl_next_id t) vals (ddl c')"
      by (rule cellr [OF c'])
    consider "col_name c' = ''id''" | "col_name c' = col_name c"
      | "col_name c' \<noteq> ''id''" "col_name c' \<noteq> col_name c" by blast
    then show ?thesis
    proof cases
      case 1
      have sv: "stored_value (tbl_next_id t) vals (ddl c') = IntV (tbl_next_id t)"
        using sh [OF c'] noid' 1 by (simp add: stored_value_def shape_def)
      have "IntV (tbl_next_id t) \<notin> set (column_values (tbl_rows t) (col_name c'))"
        using free 1 by (simp add: ids_def)
      then show ?thesis
        unfolding dangling_ddl e sv using 1 sh [OF c'] by (simp add: shape_def)
    next
      case 2
      with d c(1) c' have "c' = c" by (auto simp: distinct_map dest: inj_onD)
      then show ?thesis
        unfolding dangling_ddl e using sv_null shc by (simp split: option.splits)
    next
      case 3
      have nofk: "col_foreign_key c' = None"
      proof (rule ccontr)
        assume "col_foreign_key c' \<noteq> None"
        with metadata_one_reference [OF m] c c' have "c' = c"
          by (intro at_most_one [where P = "\<lambda>c. col_foreign_key c \<noteq> None" and xs = cs]) simp_all
        with 3 show False by simp
      qed
      have plain: "\<not> col_unique c'" "\<not> col_primary_key c'" "col_default c' = None"
        using sh [OF c'] 3 shc by (auto simp: shape_def)
      have acc: "acceptable c' vals"
        using rest c' 3 by (auto simp: list_all_iff)
      have "fits (col_type c') (stored_value (tbl_next_id t) vals (ddl c')) \<and>
            (col_nullable c' \<or> stored_value (tbl_next_id t) vals (ddl c') \<noteq> Null)"
        using acc plain sh [OF c']
        by (auto simp: acceptable_def stored_value_def shape_def split: option.splits)
      then show ?thesis
        unfolding dangling_ddl e using plain nofk by simp
    qed
  qed
  have wt: "well_typed (tbl_columns t) r"
    using col by (simp add: well_typed_def cols list_all_iff)
  have nv: "violations db (tbl_columns t) (tbl_rows t) r = []"
    using col
    by (simp add: violations_def not_null_violations_empty unique_violations_empty
        foreign_key_violations_empty cols list_all_iff)
  have k: "set (map fst vals) \<subseteq> set (map col_name (tbl_columns t))"
    using keys by (simp add: cols)
  have k': "set (map fst vals) \<subseteq> set (map col_name cs')"
    using keys by (simp add: names)
  have "insert_stmt lt db tn vals =
      Inr (db(tn \<mapsto> t\<lparr>tbl_rows := tbl_rows t @ [r],
                        tbl_next_id := advance (tbl_columns t) (tbl_next_id t) r\<rparr>))"
    using k k' wt nv by (simp add: insert_stmt_def cs' pd insert_row_def t r_def [symmetric])
  moreover have "cell r (col_name c) = Null"
    unfolding cellr [OF c(1)] by (rule sv_null)
  ultimately show ?thesis using shc(1) by simp
qed

text \<open>A customer without a department is accepted by the seeded database.\<close>

theorem null_reference_accepted_witness:
  "\<exists>db' t' r.
     insert_stmt \<lparr>created_now = 2000, updated_now = 2001\<rparr>
       (snd (recreate_database \<lparr>created_now = 1000, updated_now = 1001\<rparr> None Map.empty))
       ''customer'' [(''chat_id'', IntV 77), (''first_name'', StrV ''Aigerim'')] = Inr db' \<and>
     db' ''customer'' = Some t' \<and> tbl_rows t' = [r] \<and> cell r ''department_name'' = Null"
proof -
  let ?clt = "\<lparr>created_now = 1000, updated_now = 1001\<rparr>"
  let ?new = "\<lparr>created_now = 2000, updated_now = 2001\<rparr>"
  let ?db = "snd (recreate_database ?clt None Map.empty)"
  let ?vals = "[(''chat_id'', IntV 77), (''first_name'', StrV ''Aigerim'')]"
  let ?c = "(Column ''department_name'' String)
        \<lparr>col_foreign_key := Some (''department'', ''department_name'')\<rparr>"
  let ?t = "create_table (Customer ?clt)"
  have m: "map_of (metadata ?clt) ''customer'' = Some (Customer ?clt)"
    by (simp add: metadata_def)
  have t: "?db ''customer'' = Some ?t" by (rule bootstrap_table_empty)
  have cols: "tbl_columns ?t = map ddl (Customer ?clt)" by (simp add: create_table_def)
  have c: "?c \<in> set (Customer ?clt)" "col_foreign_key ?c \<noteq> None"
    by (simp_all add: Customer_def)
  have keys: "set (map fst ?vals) \<subseteq> set (map col_name (Customer ?clt))"
    by (simp add: metadata_column_names)
  have null: "map_of ?vals (col_name ?c) = None \<or> map_of ?vals (col_name ?c) = Some Null"
    by (simp add: Column_def)
  have noid: "''id'' \<notin> set (map fst ?vals)" by simp
  have free: "IntV (tbl_next_id ?t) \<notin> set (ids ?t)"
    by (simp add: ids_def create_table_def column_values_def)
  have rest: "list_all (\<lambda>c'. col_name c' = col_name ?c \<or> col_name c' = ''id'' \<or> acceptable c' ?vals)
      (Customer ?clt)"
    by (simp add: schema_defs acceptable_def)
  from null_reference_accepted [where db = "?db" and lt = ?new,
      OF m t cols c keys null noid free rest]
  show ?thesis by (auto simp: create_table_def Column_def)
qed

section \<open>Identities\<close>

text \<open>
  C4. Take a table created from the module's metadata whose identities are distinct
  and below the generator's next value, as they are in a table just created, and let
  any statements be executed. An INSERT into the table that then succeeds without
  supplying an \<^verbatim>\<open>id\<close> gives its row the generator's next value and moves the generator
  one past it. That identity is held by no other row of the table, the identities of
  the table stay distinct, and no row of the table held it at any earlier moment of
  the run, whatever has been inserted or updated since: a generated identity has not
  been used before, and one that has been used is not generated again.
\<close>

theorem identity_fresh:
  assumes m: "map_of (metadata clt) tn = Some cs" and t: "db tn = Some t"
    and cols: "tbl_columns t = map ddl cs" and ok: "id_ok t"
    and ins: "insert_stmt lt (run lt db ss) tn vals = Inr db'"
    and noid: "''id'' \<notin> set (map fst vals)"
  shows "\<exists>t1 t2 r. run lt db ss tn = Some t1 \<and> db' tn = Some t2 \<and>
           tbl_rows t2 = tbl_rows t1 @ [r] \<and> cell r ''id'' = IntV (tbl_next_id t1) \<and>
           tbl_next_id t2 = tbl_next_id t1 + 1 \<and> id_ok t2 \<and> distinct (ids t2) \<and>
           (\<forall>k t0. k \<le> length ss \<longrightarrow> run lt db (take k ss) tn = Some t0 \<longrightarrow>
              cell r ''id'' \<notin> set (ids t0))"
proof -
  from identity_run [where db = db and lt = lt and ss = ss, OF m t cols ok]
  obtain t1 where t1: "run lt db ss tn = Some t1" "tbl_columns t1 = map ddl cs" "id_ok t1"
    by blast
  from insert_keeps_id_ok [where db = "run lt db ss" and lt = lt and vals = vals, OF m t1] ins noid
  obtain t2 r where t2: "db' tn = Some t2" "tbl_rows t2 = tbl_rows t1 @ [r]" "id_ok t2"
    "cell r ''id'' = IntV (tbl_next_id t1)" "tbl_next_id t2 = tbl_next_id t1 + 1"
    by blast
  have "cell r ''id'' \<notin> set (ids t0)"
    if k: "k \<le> length ss" and t0: "run lt db (take k ss) tn = Some t0" for k t0
  proof -
    from identity_run [where db = db and lt = lt and ss = "take k ss", OF m t cols ok] t0
    have t0': "tbl_columns t0 = map ddl cs" "id_ok t0" by auto
    have "run lt db ss = run lt (run lt db (take k ss)) (drop k ss)"
      by (simp add: run_append [symmetric])
    with identity_run [where db = "run lt db (take k ss)" and lt = lt and ss = "drop k ss",
        OF m t0 t0'] t1(1)
    have "tbl_next_id t0 \<le> tbl_next_id t1" by auto
    moreover have "tbl_next_id t1 < tbl_next_id t0" if "IntV (tbl_next_id t1) \<in> set (ids t0)"
      using t0'(2) that by (auto simp: id_ok_def list_all_iff below_def)
    ultimately show ?thesis
      unfolding t2(4) by auto
  qed
  with t1 t2 show ?thesis by (auto simp: id_ok_def)
qed

text \<open>
  In the seeded database, department 4 is renumbered 40 and a department is added
  (it gets 41); the next department gets 42, and 4 is not given out again.
\<close>

theorem identity_fresh_witness:
  "\<exists>db' t2 r.
     insert_stmt \<lparr>created_now = 2000, updated_now = 2001\<rparr>
       (run \<lparr>created_now = 2000, updated_now = 2001\<rparr>
          (snd (recreate_database \<lparr>created_now = 1000, updated_now = 1001\<rparr> None Map.empty))
          [UpdateWhere 3000 ''department'' 4 [(''id'', IntV 40)],
           InsertInto ''department'' [(''department_name'', StrV ''Go'')]])
       ''department'' [(''department_name'', StrV ''Rust'')] = Inr db' \<and>
     db' ''department'' = Some t2 \<and>
     column_values (tbl_rows t2) ''id'' = [IntV 1, IntV 2, IntV 3, IntV 40, IntV 41, IntV 42] \<and>
     last (tbl_rows t2) = r \<and> cell r ''id'' = IntV 42 \<and> tbl_next_id t2 = 43"
proof -
  let ?clt = "\<lparr>created_now = 1000, updated_now = 1001\<rparr>"
  let ?new = "\<lparr>created_now = 2000, updated_now = 2001\<rparr>"
  let ?db = "snd (recreate_database ?clt None Map.empty)"
  let ?ss = "[UpdateWhere 3000 ''department'' 4 [(''id'', IntV 40)],
           InsertInto ''department'' [(''department_name'', StrV ''Go'')]]"
  let ?vals = "[(''department_name'', StrV ''Rust'')]"
  define t where "t = the (?db ''department'')"
  have t: "?db ''department'' = Some t"
    by (simp add: t_def bootstrap_table_department)
  have rows: "tbl_rows t = map (\<lambda>x. [(''id'', fst x), (''created_at'', TimeV 1000),
                    (''updated_at'', TimeV 1001), (''department_name'', snd x)])
            [(IntV 1, StrV ''Python''), (IntV 2, StrV ''System Administrator''),
             (IntV 3, StrV ''Javascript''), (IntV 4, StrV ''Java'')]"
    and c: "tbl_columns t = map ddl (Department ?clt)" and n: "tbl_next_id t = 5"
    by (simp_all add: t_def bootstrap_table_department)
  have m: "map_of (metadata ?clt) ''department'' = Some (Department ?clt)"
    by (simp add: metadata_def)
  have ok: "id_ok t"
    by (simp add: id_ok_def ids_def column_values_def cell_def rows n below_def)
  define t1 where "t1 = \<lparr>tbl_columns = map ddl (Department ?clt),
      tbl_rows = map (\<lambda>x. [(''id'', fst x), (''created_at'', fst (snd x)),
                    (''updated_at'', fst (snd (snd x))), (''department_name'', snd (snd (snd x)))])
            [(IntV 1, TimeV 1000, TimeV 1001, StrV ''Python''),
             (IntV 2, TimeV 1000, TimeV 1001, StrV ''System Administrator''),
             (IntV 3, TimeV 1000, TimeV 1001, StrV ''Javascript''),
             (IntV 40, TimeV 1000, TimeV 3000, StrV ''Java''),
             (IntV 41, TimeV 1000, TimeV 1001, StrV ''Go'')],
      tbl_next_id = 42\<rparr>"
  have u: "update_stmt ?new 3000 ?db ''department'' 4 [(''id'', IntV 40)] =
      Inr (?db(''department'' \<mapsto> t\<lparr>tbl_rows := (tbl_rows t)[3 :=
         [(''id'', IntV 40), (''created_at'', TimeV 1000), (''updated_at'', TimeV 3000),
          (''department_name'', StrV ''Java'')]], tbl_next_id := 41\<rparr>))"
    unfolding update_stmt_def update_rows_def t
    by (simp add: rows c n schema_defs violations_def not_null_violations_def
        unique_violations_def foreign_key_violations_def dangling_def column_values_def
        well_typed_def cell_def set_row_def hit_def onupdate_values_def Let_def advance_def)
  have run: "run ?new ?db ?ss ''department'' = Some t1"
    unfolding run.simps apply_statement.simps u
    by (simp add: insert_stmt_def insert_row_def rows c n schema_defs new_row_def
        stored_value_def python_defaults_def well_typed_def violations_def
        not_null_violations_def unique_violations_def foreign_key_violations_def
        dangling_def column_values_def cell_def advance_def t1_def)
  have "\<exists>db'. insert_stmt ?new (run ?new ?db ?ss) ''department'' ?vals = Inr db'"
    unfolding insert_stmt_def insert_row_def run
    by (simp add: t1_def schema_defs new_row_def
        stored_value_def python_defaults_def well_typed_def violations_def
        not_null_violations_def unique_violations_def foreign_key_violations_def
        dangling_def column_values_def cell_def)
  then obtain db' where i: "insert_stmt ?new (run ?new ?db ?ss) ''department'' ?vals = Inr db'" ..
  have k: "''id'' \<notin> set (map fst ?vals)" by simp
  from identity_fresh [where db = "?db" and lt = ?new and ss = ?ss, OF m t c ok i k]
  obtain t2 r where "db' ''department'' = Some t2" "tbl_rows t2 = tbl_rows t1 @ [r]"
    "cell r ''id'' = IntV (tbl_next_id t1)" "tbl_next_id t2 = tbl_next_id t1 + 1"
    using run by auto
  then show ?thesis using i by (auto simp: t1_def column_values_def cell_def)
qed


end
